theory Spec2Isabelle
  imports Main
begin

section \<open>Values, rules and fields (types/types.go)\<close>

text \<open>
  A Go \<^verbatim>\<open>interface{}\<close> value is a value tagged with its dynamic type. The
  constructors below are the dynamic types the repository inspects (a JSON payload
  decodes to nil, bool, float64, string, \<^verbatim>\<open>[]interface{}\<close> and
  \<^verbatim>\<open>map[string]interface{}\<close>; Go callers also pass the native integer
  types) and the ones the schema generator stores (\<^verbatim>\<open>[]string\<close>,
  \<^verbatim>\<open>[]map[string]interface{}\<close>, \<^verbatim>\<open>[]types.TableColumn\<close>).
  Strings are byte strings, as in Go. The type \<open>'f\<close> stands for the IEEE floating-point
  numbers: their arithmetic is not modelled, only passed through (see \<open>go_runtime\<close>).
  Go's \<^verbatim>\<open>int\<close> is taken to be 64 bits wide; integers are only converted and
  compared, never added, so they are carried as mathematical integers.
\<close>

type_synonym FieldType = string

abbreviation (input) FieldTypeText :: FieldType where "FieldTypeText \<equiv> ''text''"
abbreviation (input) FieldTypeEmail :: FieldType where "FieldTypeEmail \<equiv> ''email''"
abbreviation (input) FieldTypePassword :: FieldType where "FieldTypePassword \<equiv> ''password''"
abbreviation (input) FieldTypeNumber :: FieldType where "FieldTypeNumber \<equiv> ''number''"
abbreviation (input) FieldTypeTextarea :: FieldType where "FieldTypeTextarea \<equiv> ''textarea''"
abbreviation (input) FieldTypeSelect :: FieldType where "FieldTypeSelect \<equiv> ''select''"
abbreviation (input) FieldTypeRadio :: FieldType where "FieldTypeRadio \<equiv> ''radio''"
abbreviation (input) FieldTypeCheckbox :: FieldType where "FieldTypeCheckbox \<equiv> ''checkbox''"
abbreviation (input) FieldTypeDate :: FieldType where "FieldTypeDate \<equiv> ''date''"
abbreviation (input) FieldTypeTime :: FieldType where "FieldTypeTime \<equiv> ''time''"
abbreviation (input) FieldTypeFile :: FieldType where "FieldTypeFile \<equiv> ''file''"
abbreviation (input) FieldTypeHidden :: FieldType where "FieldTypeHidden \<equiv> ''hidden''"
abbreviation (input) FieldTypeTable :: FieldType where "FieldTypeTable \<equiv> ''table''"

record SelectOption =
  opt_Value :: string
  opt_Label :: string
  opt_Disabled :: bool

record TableColumn =
  col_Key :: string
  col_Title :: string
  col_Type :: FieldType
  col_Sortable :: bool
  col_Filterable :: bool
  col_Width :: string
  col_Align :: string
  col_Options :: "SelectOption list"
  col_Multiple :: bool

text \<open>The handler \<^verbatim>\<open>OnGet\<close> of a table is a callback of the application and is left out.\<close>

record TableConfig =
  tc_Columns :: "TableColumn list"
  tc_Pagination :: bool
  tc_PageSize :: int
  tc_Sortable :: bool
  tc_Filterable :: bool
  tc_Selectable :: bool
  tc_Editable :: bool

datatype 'f gvalue =
    VNil
  | VBool bool
  | VString string
  | VInt int
  | VInt32 int
  | VInt64 int
  | VFloat64 'f
  | VFloat32 'f
  | VList "'f gvalue list"
  | VMap "string \<Rightarrow> 'f gvalue option"
  | VStrings "string list"
  | VMaps "(string \<Rightarrow> 'f gvalue option) list"
  | VColumns "TableColumn list"

type_synonym 'f gmap = "string \<Rightarrow> 'f gvalue option"

record 'f ValidationRule =
  rule_Type :: string
  rule_Value :: "'f gvalue"
  rule_Message :: string

record 'f Field =
  Name :: string
  Type :: FieldType
  Label :: string
  Required :: bool
  Placeholder :: string
  DefaultValue :: "'f gvalue"
  Options :: "SelectOption list"
  Multiple :: bool
  Validation :: "'f ValidationRule list"
  Group :: string
  Description :: string
  Disabled :: bool
  Config :: "'f gmap"
  TableConfig :: "TableConfig option"

record FieldGroup =
  grp_Name :: string
  grp_Title :: string
  grp_Description :: string
  grp_Fields :: "string list"

text \<open>The handlers \<^verbatim>\<open>OnPost\<close> and \<^verbatim>\<open>OnGet\<close> of a form are callbacks and are left out.\<close>

record 'f Form =
  form_Name :: string
  form_Title :: string
  form_Description :: string
  Fields :: "'f Field list"
  Groups :: "FieldGroup list"

record Page =
  page_Name :: string
  page_Title :: string
  page_Content :: string

section \<open>The Go library, as far as the repository calls it\<close>

text \<open>
  The functions of Go's standard library and the floating-point operations of the machine
  are not part of the repository. They are parameters of the model: every theorem below
  holds for each interpretation of them. An error of \<^verbatim>\<open>strconv\<close> or
  \<^verbatim>\<open>regexp\<close> is the left summand, carrying its text; a compiled regular
  expression is carried by its \<^verbatim>\<open>MatchString\<close> predicate.
\<close>

record 'f go_runtime =
  strings_TrimSpace :: "string \<Rightarrow> string"
  strings_ToLower :: "string \<Rightarrow> string"
  regexp_Compile :: "string \<Rightarrow> string + (string \<Rightarrow> bool)"
  strconv_ParseFloat :: "string \<Rightarrow> string + 'f"
  strconv_Atoi :: "string \<Rightarrow> string + int"
  float64_of_float32 :: "'f \<Rightarrow> 'f"
  float64_of_int :: "int \<Rightarrow> 'f"
  int_of_float64 :: "'f \<Rightarrow> int"
  int_of_float32 :: "'f \<Rightarrow> int"
  float64_less :: "'f \<Rightarrow> 'f \<Rightarrow> bool"

section \<open>Errors\<close>

text \<open>
  A Go \<^verbatim>\<open>error\<close> is modelled by what it was built from; \<open>None\<close> is
  \<^verbatim>\<open>nil\<close>. The texts of the source are Russian; in English:
  \<^item> \<open>RequiredField\<close>: "the field is required";
  \<^item> \<open>NotAString\<close>: "the value must be a string";
  \<^item> \<open>InvalidEmail\<close>: "invalid email address";
  \<^item> \<open>CustomMessage m\<close>: the rule's own message \<open>m\<close>;
  \<^item> \<open>BelowMin b\<close>, \<open>AboveMax b\<close>: "the value must be at least / at most \<open>b\<close>";
  \<^item> \<open>TooShort n\<close>, \<open>TooLong n\<close>: "the length must be at least / at most \<open>n\<close> characters";
  \<^item> \<open>PatternNotString\<close>: "the pattern must be a string";
  \<^item> \<open>BadRegexp e\<close>: "invalid regular expression: \<open>e\<close>";
  \<^item> \<open>PatternMismatch\<close>: "the value does not have the required format";
  \<^item> \<open>StrconvError e\<close>: the error \<open>e\<close> of \<^verbatim>\<open>strconv\<close>, returned as it is;
  \<^item> \<open>NoFloatConversion v\<close>, \<open>NoIntConversion v\<close>: "cannot convert (the type of \<open>v\<close>)
    to a number / to an integer".
\<close>

datatype 'f verror =
    RequiredField
  | NotAString
  | InvalidEmail
  | CustomMessage string
  | BelowMin 'f
  | AboveMax 'f
  | TooShort int
  | TooLong int
  | PatternNotString
  | BadRegexp string
  | PatternMismatch
  | StrconvError string
  | NoFloatConversion "'f gvalue"
  | NoIntConversion "'f gvalue"

section \<open>Regular expressions of the source\<close>

text \<open>
  The only regular expression written in the source is the one of \<^verbatim>\<open>validateEmail\<close>
  (form/utils.go):
  \<^verbatim>\<open>^[a-zA-Z0-9._%+-]+@[a-zA-Z0-9.-]+\.[a-zA-Z]{2,}$\<close>.
  It is anchored at both ends, so \<^verbatim>\<open>MatchString\<close> asks whether the whole string
  is in its language. The expression is written out as a term and matched by derivatives.
\<close>

datatype rx =
    RxNone
  | RxEps
  | RxChars "char list"
  | RxSeq rx rx
  | RxAlt rx rx
  | RxStar rx

fun rx_nullable :: "rx \<Rightarrow> bool" where
  "rx_nullable RxNone = False"
| "rx_nullable RxEps = True"
| "rx_nullable (RxChars cs) = False"
| "rx_nullable (RxSeq r s) = (rx_nullable r \<and> rx_nullable s)"
| "rx_nullable (RxAlt r s) = (rx_nullable r \<or> rx_nullable s)"
| "rx_nullable (RxStar r) = True"

fun rx_deriv :: "char \<Rightarrow> rx \<Rightarrow> rx" where
  "rx_deriv c RxNone = RxNone"
| "rx_deriv c RxEps = RxNone"
| "rx_deriv c (RxChars cs) = (if c \<in> set cs then RxEps else RxNone)"
| "rx_deriv c (RxSeq r s) =
     (if rx_nullable r then RxAlt (RxSeq (rx_deriv c r) s) (rx_deriv c s)
      else RxSeq (rx_deriv c r) s)"
| "rx_deriv c (RxAlt r s) = RxAlt (rx_deriv c r) (rx_deriv c s)"
| "rx_deriv c (RxStar r) = RxSeq (rx_deriv c r) (RxStar r)"

fun rx_match :: "rx \<Rightarrow> string \<Rightarrow> bool" where
  "rx_match r [] = rx_nullable r"
| "rx_match r (c # cs) = rx_match (rx_deriv c r) cs"

definition rx_plus :: "rx \<Rightarrow> rx" where
  "rx_plus r = RxSeq r (RxStar r)"

definition rx_letters :: "char list" where
  "rx_letters = ''abcdefghijklmnopqrstuvwxyzABCDEFGHIJKLMNOPQRSTUVWXYZ''"

definition rx_digits :: "char list" where
  "rx_digits = ''0123456789''"

definition emailRegex :: rx where
  "emailRegex =
     RxSeq (rx_plus (RxChars (rx_letters @ rx_digits @ ''._%+-'')))
    (RxSeq (RxChars ''@'')
    (RxSeq (rx_plus (RxChars (rx_letters @ rx_digits @ ''.-'')))
    (RxSeq (RxChars ''.'')
    (RxSeq (RxChars rx_letters) (RxSeq (RxChars rx_letters) (RxStar (RxChars rx_letters)))))))"

section \<open>Standalone field validation (form/utils.go)\<close>

fun isEmpty :: "'f go_runtime \<Rightarrow> 'f gvalue \<Rightarrow> bool" where
  "isEmpty E VNil = True"
| "isEmpty E (VString v) = (strings_TrimSpace E v = [])"
| "isEmpty E (VList v) = (length v = 0)"
| "isEmpty E _ = False"

fun toFloat64 :: "'f go_runtime \<Rightarrow> 'f gvalue \<Rightarrow> 'f verror + 'f" where
  "toFloat64 E (VFloat64 v) = Inr v"
| "toFloat64 E (VFloat32 v) = Inr (float64_of_float32 E v)"
| "toFloat64 E (VInt v) = Inr (float64_of_int E v)"
| "toFloat64 E (VInt32 v) = Inr (float64_of_int E v)"
| "toFloat64 E (VInt64 v) = Inr (float64_of_int E v)"
| "toFloat64 E (VString v) =
     (case strconv_ParseFloat E v of Inl e \<Rightarrow> Inl (StrconvError e) | Inr x \<Rightarrow> Inr x)"
| "toFloat64 E v = Inl (NoFloatConversion v)"

fun toInt :: "'f go_runtime \<Rightarrow> 'f gvalue \<Rightarrow> 'f verror + int" where
  "toInt E (VInt v) = Inr v"
| "toInt E (VInt32 v) = Inr v"
| "toInt E (VInt64 v) = Inr v"
| "toInt E (VFloat64 v) = Inr (int_of_float64 E v)"
| "toInt E (VFloat32 v) = Inr (int_of_float32 E v)"
| "toInt E (VString v) =
     (case strconv_Atoi E v of Inl e \<Rightarrow> Inl (StrconvError e) | Inr n \<Rightarrow> Inr n)"
| "toInt E v = Inl (NoIntConversion v)"

text \<open>
  \<^verbatim>\<open>if message != "" { return errors.New(message) }; return <default>\<close>:
  the tail shared by every validator once its constraint is violated.
\<close>

definition failure :: "string \<Rightarrow> 'f verror \<Rightarrow> 'f verror option" where
  "failure message dflt = (if message \<noteq> [] then Some (CustomMessage message) else Some dflt)"

definition validateEmail :: "'f gvalue \<Rightarrow> string \<Rightarrow> 'f verror option" where
  "validateEmail v message =
     (case v of
        VString str \<Rightarrow>
          if \<not> rx_match emailRegex str then failure message InvalidEmail else None
      | _ \<Rightarrow> Some NotAString)"

definition validateMin :: "'f go_runtime \<Rightarrow> 'f gvalue \<Rightarrow> 'f gvalue \<Rightarrow> string \<Rightarrow> 'f verror option" where
  "validateMin E v minValue message =
     (case toFloat64 E v of
        Inl err \<Rightarrow> Some err
      | Inr num \<Rightarrow>
          (case toFloat64 E minValue of
             Inl err \<Rightarrow> Some err
           | Inr mn \<Rightarrow> if float64_less E num mn then failure message (BelowMin mn) else None))"

definition validateMax :: "'f go_runtime \<Rightarrow> 'f gvalue \<Rightarrow> 'f gvalue \<Rightarrow> string \<Rightarrow> 'f verror option" where
  "validateMax E v maxValue message =
     (case toFloat64 E v of
        Inl err \<Rightarrow> Some err
      | Inr num \<Rightarrow>
          (case toFloat64 E maxValue of
             Inl err \<Rightarrow> Some err
           | Inr mx \<Rightarrow> if float64_less E mx num then failure message (AboveMax mx) else None))"

definition validateMinLength :: "'f go_runtime \<Rightarrow> 'f gvalue \<Rightarrow> 'f gvalue \<Rightarrow> string \<Rightarrow> 'f verror option" where
  "validateMinLength E v minLength message =
     (case v of
        VString str \<Rightarrow>
          (case toInt E minLength of
             Inl err \<Rightarrow> Some err
           | Inr mn \<Rightarrow> if int (length str) < mn then failure message (TooShort mn) else None)
      | _ \<Rightarrow> Some NotAString)"

definition validateMaxLength :: "'f go_runtime \<Rightarrow> 'f gvalue \<Rightarrow> 'f gvalue \<Rightarrow> string \<Rightarrow> 'f verror option" where
  "validateMaxLength E v maxLength message =
     (case v of
        VString str \<Rightarrow>
          (case toInt E maxLength of
             Inl err \<Rightarrow> Some err
           | Inr mx \<Rightarrow> if int (length str) > mx then failure message (TooLong mx) else None)
      | _ \<Rightarrow> Some NotAString)"

definition validatePattern :: "'f go_runtime \<Rightarrow> 'f gvalue \<Rightarrow> 'f gvalue \<Rightarrow> string \<Rightarrow> 'f verror option" where
  "validatePattern E v pattern message =
     (case v of
        VString str \<Rightarrow>
          (case pattern of
             VString patternStr \<Rightarrow>
               (case regexp_Compile E patternStr of
                  Inl err \<Rightarrow> Some (BadRegexp err)
                | Inr regex \<Rightarrow> if \<not> regex str then failure message PatternMismatch else None)
           | _ \<Rightarrow> Some PatternNotString)
      | _ \<Rightarrow> Some NotAString)"

definition validateRule :: "'f go_runtime \<Rightarrow> 'f gvalue \<Rightarrow> 'f ValidationRule \<Rightarrow> 'f verror option" where
  "validateRule E v rule =
     (if rule_Type rule = ''email'' then validateEmail v (rule_Message rule)
      else if rule_Type rule = ''min'' then validateMin E v (rule_Value rule) (rule_Message rule)
      else if rule_Type rule = ''max'' then validateMax E v (rule_Value rule) (rule_Message rule)
      else if rule_Type rule = ''minLength'' then validateMinLength E v (rule_Value rule) (rule_Message rule)
      else if rule_Type rule = ''maxLength'' then validateMaxLength E v (rule_Value rule) (rule_Message rule)
      else if rule_Type rule = ''pattern'' then validatePattern E v (rule_Value rule) (rule_Message rule)
      else None)"

text \<open>The loop of \<^verbatim>\<open>ValidateField\<close> over \<^verbatim>\<open>field.Validation\<close>: it returns at the first error.\<close>

fun applyRules :: "'f go_runtime \<Rightarrow> 'f gvalue \<Rightarrow> 'f ValidationRule list \<Rightarrow> 'f verror option" where
  "applyRules E v [] = None"
| "applyRules E v (rule # rules) =
     (case validateRule E v rule of Some err \<Rightarrow> Some err | None \<Rightarrow> applyRules E v rules)"

definition ValidateField :: "'f go_runtime \<Rightarrow> 'f Field \<Rightarrow> 'f gvalue \<Rightarrow> 'f verror option" where
  "ValidateField E field v =
     (if Required field \<and> isEmpty E v then Some RequiredField
      else if isEmpty E v then None
      else applyRules E v (Validation field))"

section \<open>Substrings\<close>

text \<open>
  \<^verbatim>\<open>strings.Contains(s, substr)\<close>: \<open>substr\<close> occurs in \<open>s\<close> as a block of
  consecutive bytes, at some position.
\<close>

fun strings_Contains :: "string \<Rightarrow> string \<Rightarrow> bool" where
  "strings_Contains [] substr = (substr = [])"
| "strings_Contains (c # s) substr =
     (take (length substr) (c # s) = substr \<or> strings_Contains s substr)"

section \<open>Validation of a submitted payload (router/router.go)\<close>

text \<open>
  The router package has its own copies of \<^verbatim>\<open>isEmpty\<close>, \<^verbatim>\<open>toFloat64\<close>,
  \<^verbatim>\<open>toInt\<close> and of the validators; they are translated from router.go one by one,
  under the prefix \<open>router_\<close>. \<^verbatim>\<open>fmt.Errorf("%s", message)\<close> builds the error
  with the text \<open>message\<close>, as \<^verbatim>\<open>errors.New(message)\<close> does.
\<close>

fun router_isEmpty :: "'f go_runtime \<Rightarrow> 'f gvalue \<Rightarrow> bool" where
  "router_isEmpty E VNil = True"
| "router_isEmpty E (VString v) = (strings_TrimSpace E v = [])"
| "router_isEmpty E (VList v) = (length v = 0)"
| "router_isEmpty E _ = False"

fun router_toFloat64 :: "'f go_runtime \<Rightarrow> 'f gvalue \<Rightarrow> 'f verror + 'f" where
  "router_toFloat64 E (VFloat64 v) = Inr v"
| "router_toFloat64 E (VFloat32 v) = Inr (float64_of_float32 E v)"
| "router_toFloat64 E (VInt v) = Inr (float64_of_int E v)"
| "router_toFloat64 E (VInt32 v) = Inr (float64_of_int E v)"
| "router_toFloat64 E (VInt64 v) = Inr (float64_of_int E v)"
| "router_toFloat64 E (VString v) =
     (case strconv_ParseFloat E v of Inl e \<Rightarrow> Inl (StrconvError e) | Inr x \<Rightarrow> Inr x)"
| "router_toFloat64 E v = Inl (NoFloatConversion v)"

fun router_toInt :: "'f go_runtime \<Rightarrow> 'f gvalue \<Rightarrow> 'f verror + int" where
  "router_toInt E (VInt v) = Inr v"
| "router_toInt E (VInt32 v) = Inr v"
| "router_toInt E (VInt64 v) = Inr v"
| "router_toInt E (VFloat64 v) = Inr (int_of_float64 E v)"
| "router_toInt E (VFloat32 v) = Inr (int_of_float32 E v)"
| "router_toInt E (VString v) =
     (case strconv_Atoi E v of Inl e \<Rightarrow> Inl (StrconvError e) | Inr n \<Rightarrow> Inr n)"
| "router_toInt E v = Inl (NoIntConversion v)"

definition router_validateEmail :: "'f gvalue \<Rightarrow> string \<Rightarrow> 'f verror option" where
  "router_validateEmail v message =
     (case v of
        VString str \<Rightarrow>
          if \<not> strings_Contains str ''@'' \<or> \<not> strings_Contains str ''.''
          then failure message InvalidEmail
          else None
      | _ \<Rightarrow> Some NotAString)"

definition router_validateMin :: "'f go_runtime \<Rightarrow> 'f gvalue \<Rightarrow> 'f gvalue \<Rightarrow> string \<Rightarrow> 'f verror option" where
  "router_validateMin E v minValue message =
     (case router_toFloat64 E v of
        Inl err \<Rightarrow> Some err
      | Inr num \<Rightarrow>
          (case router_toFloat64 E minValue of
             Inl err \<Rightarrow> Some err
           | Inr mn \<Rightarrow> if float64_less E num mn then failure message (BelowMin mn) else None))"

definition router_validateMax :: "'f go_runtime \<Rightarrow> 'f gvalue \<Rightarrow> 'f gvalue \<Rightarrow> string \<Rightarrow> 'f verror option" where
  "router_validateMax E v maxValue message =
     (case router_toFloat64 E v of
        Inl err \<Rightarrow> Some err
      | Inr num \<Rightarrow>
          (case router_toFloat64 E maxValue of
             Inl err \<Rightarrow> Some err
           | Inr mx \<Rightarrow> if float64_less E mx num then failure message (AboveMax mx) else None))"

definition router_validateMinLength :: "'f go_runtime \<Rightarrow> 'f gvalue \<Rightarrow> 'f gvalue \<Rightarrow> string \<Rightarrow> 'f verror option" where
  "router_validateMinLength E v minLength message =
     (case v of
        VString str \<Rightarrow>
          (case router_toInt E minLength of
             Inl err \<Rightarrow> Some err
           | Inr mn \<Rightarrow> if int (length str) < mn then failure message (TooShort mn) else None)
      | _ \<Rightarrow> Some NotAString)"

definition router_validateMaxLength :: "'f go_runtime \<Rightarrow> 'f gvalue \<Rightarrow> 'f gvalue \<Rightarrow> string \<Rightarrow> 'f verror option" where
  "router_validateMaxLength E v maxLength message =
     (case v of
        VString str \<Rightarrow>
          (case router_toInt E maxLength of
             Inl err \<Rightarrow> Some err
           | Inr mx \<Rightarrow> if int (length str) > mx then failure message (TooLong mx) else None)
      | _ \<Rightarrow> Some NotAString)"

definition router_validateRule :: "'f go_runtime \<Rightarrow> 'f gvalue \<Rightarrow> 'f ValidationRule \<Rightarrow> 'f verror option" where
  "router_validateRule E v rule =
     (if rule_Type rule = ''email'' then router_validateEmail v (rule_Message rule)
      else if rule_Type rule = ''min'' then router_validateMin E v (rule_Value rule) (rule_Message rule)
      else if rule_Type rule = ''max'' then router_validateMax E v (rule_Value rule) (rule_Message rule)
      else if rule_Type rule = ''minLength'' then router_validateMinLength E v (rule_Value rule) (rule_Message rule)
      else if rule_Type rule = ''maxLength'' then router_validateMaxLength E v (rule_Value rule) (rule_Message rule)
      else None)"

text \<open>
  \<^verbatim>\<open>validateFormData\<close> wraps the first error with the label of its field:
  \<open>FieldRequired l\<close> is "field 'l' is required", \<open>FieldInvalid l e\<close> is "field 'l': e".
  A key missing from the payload is \<open>data k = None\<close>.
\<close>

datatype 'f form_error =
    FieldRequired string
  | FieldInvalid string "'f verror"

fun router_applyRules :: "'f go_runtime \<Rightarrow> 'f gvalue \<Rightarrow> 'f ValidationRule list \<Rightarrow> 'f verror option" where
  "router_applyRules E v [] = None"
| "router_applyRules E v (rule # rules) =
     (case router_validateRule E v rule of
        Some err \<Rightarrow> Some err
      | None \<Rightarrow> router_applyRules E v rules)"

fun validateFormData_loop :: "'f go_runtime \<Rightarrow> 'f Field list \<Rightarrow> 'f gmap \<Rightarrow> 'f form_error option" where
  "validateFormData_loop E [] data = None"
| "validateFormData_loop E (field # rest) data =
     (let absent = (case data (Name field) of None \<Rightarrow> True | Some v \<Rightarrow> router_isEmpty E v) in
      if Required field \<and> absent then Some (FieldRequired (Label field))
      else if absent then validateFormData_loop E rest data
      else
        (case router_applyRules E (the (data (Name field))) (Validation field) of
           Some err \<Rightarrow> Some (FieldInvalid (Label field) err)
         | None \<Rightarrow> validateFormData_loop E rest data))"

definition validateFormData :: "'f go_runtime \<Rightarrow> 'f Form \<Rightarrow> 'f gmap \<Rightarrow> 'f form_error option" where
  "validateFormData E form data = validateFormData_loop E (Fields form) data"

text \<open>The zero value \<^verbatim>\<open>types.Field{}\<close>, from which the examples build their fields.\<close>

definition zero_Field :: "'f Field" where
  "zero_Field =
     \<lparr> Name = [], Type = [], Label = [], Required = False, Placeholder = [],
       DefaultValue = VNil, Options = [], Multiple = False, Validation = [], Group = [],
       Description = [], Disabled = False, Config = Map.empty, TableConfig = None \<rparr>"

section \<open>The registry of forms and pages (router/router.go)\<close>

text \<open>
  Of the router's state the two Go maps are modelled, as partial functions from names:
  \<^verbatim>\<open>r.forms[name] = form\<close> is a map update, \<^verbatim>\<open>form, exists := r.forms[name]\<close>
  an application. \<^verbatim>\<open>handleFormsList\<close> and \<^verbatim>\<open>handleFormGet\<close> are modelled by the
  data they send: the map from each registered name to its form's title, and the form
  found under a name (\<open>None\<close> is the answer 404).
\<close>

record 'f Router =
  router_forms :: "string \<Rightarrow> 'f Form option"
  router_pages :: "string \<Rightarrow> Page option"

definition NewRouter :: "'f Router" where
  "NewRouter = \<lparr> router_forms = Map.empty, router_pages = Map.empty \<rparr>"

definition RegisterForm :: "'f Router \<Rightarrow> 'f Form \<Rightarrow> 'f Router" where
  "RegisterForm r form = r\<lparr> router_forms := (router_forms r)(form_Name form \<mapsto> form) \<rparr>"

definition RegisterPage :: "'f Router \<Rightarrow> Page \<Rightarrow> 'f Router" where
  "RegisterPage r page = r\<lparr> router_pages := (router_pages r)(page_Name page \<mapsto> page) \<rparr>"

definition handleFormsList :: "'f Router \<Rightarrow> (string \<Rightarrow> string option)" where
  "handleFormsList r = (\<lambda>name. map_option form_Title (router_forms r name))"

definition handleFormGet :: "'f Router \<Rightarrow> string \<Rightarrow> 'f Form option" where
  "handleFormGet r name = router_forms r name"

section \<open>The admin panel and its route store (formist.go, storage/interface.go)\<close>

text \<open>
  \<^verbatim>\<open>storage.Storage\<close> is an interface; its implementation is a collaborator. A store is
  modelled by its \<^verbatim>\<open>SaveRoute\<close>, any function from the route and the store's state to
  an optional error and the next state, together with the current state. The time stamps
  of a route are left out (the admin never sets them).
\<close>

record Route =
  route_ID :: string
  route_Name :: string
  route_Path :: string
  route_Title :: string
  route_Description :: string
  route_Icon :: string
  route_Type :: string

record 's Storage =
  SaveRoute :: "Route \<Rightarrow> 's \<Rightarrow> string option \<times> 's"
  storage_state :: 's

record ('f, 's) Admin =
  admin_router :: "'f Router"
  admin_storage :: "'s Storage option"

definition Admin_RegisterForm :: "('f, 's) Admin \<Rightarrow> 'f Form \<Rightarrow> ('f, 's) Admin" where
  "Admin_RegisterForm a form =
     (let a1 = a\<lparr> admin_router := RegisterForm (admin_router a) form \<rparr> in
      case admin_storage a1 of
        None \<Rightarrow> a1
      | Some st \<Rightarrow>
          let route = \<lparr> route_ID = [], route_Name = form_Name form,
                        route_Path = ''/admin/forms/'' @ form_Name form,
                        route_Title = form_Title form, route_Description = [],
                        route_Icon = [], route_Type = ''form'' \<rparr>;
              route' = (if form_Description form \<noteq> []
                        then route\<lparr> route_Description := form_Description form \<rparr>
                        else route);
              (err, s') = SaveRoute st route' (storage_state st)
          in a1\<lparr> admin_storage := Some (st\<lparr> storage_state := s' \<rparr>) \<rparr>)"

definition Admin_RegisterPage :: "('f, 's) Admin \<Rightarrow> Page \<Rightarrow> ('f, 's) Admin" where
  "Admin_RegisterPage a page =
     (let a1 = a\<lparr> admin_router := RegisterPage (admin_router a) page \<rparr> in
      case admin_storage a1 of
        None \<Rightarrow> a1
      | Some st \<Rightarrow>
          let route = \<lparr> route_ID = [], route_Name = page_Name page,
                        route_Path = ''/admin/pages/'' @ page_Name page,
                        route_Title = page_Title page, route_Description = [],
                        route_Icon = [], route_Type = ''page'' \<rparr>;
              (err, s') = SaveRoute st route (storage_state st)
          in a1\<lparr> admin_storage := Some (st\<lparr> storage_state := s' \<rparr>) \<rparr>)"

section \<open>Forms from Go structs (form/utils.go)\<close>

text \<open>
  What \<^verbatim>\<open>reflect\<close> reports of a struct member: its name, the kind of its type, the
  values \<^verbatim>\<open>Tag.Get\<close> finds (the empty string for an absent key) and whether it is
  exported. A type is a struct with its members, a pointer to a type, or of another kind;
  \<open>None\<close> is the nil type \<^verbatim>\<open>reflect.TypeOf(nil)\<close>, on which \<^verbatim>\<open>t.Kind()\<close> panics.
\<close>

datatype Kind =
    reflect_Invalid | reflect_Bool
  | reflect_Int | reflect_Int8 | reflect_Int16 | reflect_Int32 | reflect_Int64
  | reflect_Uint | reflect_Uint8 | reflect_Uint16 | reflect_Uint32 | reflect_Uint64
  | reflect_Uintptr | reflect_Float32 | reflect_Float64
  | reflect_Complex64 | reflect_Complex128
  | reflect_Array | reflect_Chan | reflect_Func | reflect_Interface | reflect_Map
  | reflect_Pointer | reflect_Slice | reflect_String | reflect_Struct
  | reflect_UnsafePointer

record StructField =
  sf_Name :: string
  sf_Kind :: Kind
  sf_Tag :: "string \<Rightarrow> string"
  sf_IsExported :: bool

datatype reflect_Type =
    TypeStruct "StructField list"
  | TypePtr reflect_Type
  | TypeOther Kind

text \<open>The default message of the email rule, "Enter a valid email" in Russian, in UTF-8.\<close>

definition msg_valid_email :: string where
  "msg_valid_email =
     [CHR 0xD0, CHR 0x92, CHR 0xD0, CHR 0xB2, CHR 0xD0, CHR 0xB5, CHR 0xD0, CHR 0xB4,
      CHR 0xD0, CHR 0xB8, CHR 0xD1, CHR 0x82, CHR 0xD0, CHR 0xB5, CHR 0x20, CHR 0xD0,
      CHR 0xBA, CHR 0xD0, CHR 0xBE, CHR 0xD1, CHR 0x80, CHR 0xD1, CHR 0x80, CHR 0xD0,
      CHR 0xB5, CHR 0xD0, CHR 0xBA, CHR 0xD1, CHR 0x82, CHR 0xD0, CHR 0xBD, CHR 0xD1,
      CHR 0x8B, CHR 0xD0, CHR 0xB9, CHR 0x20, CHR 0x65, CHR 0x6D, CHR 0x61, CHR 0x69,
      CHR 0x6C]"

definition getFieldName :: "'f go_runtime \<Rightarrow> StructField \<Rightarrow> string" where
  "getFieldName E field =
     (if sf_Tag field ''form'' \<noteq> [] then sf_Tag field ''form''
      else strings_ToLower E (sf_Name field))"

definition getFieldLabel :: "StructField \<Rightarrow> string" where
  "getFieldLabel field =
     (if sf_Tag field ''label'' \<noteq> [] then sf_Tag field ''label'' else sf_Name field)"

text \<open>The second switch of \<^verbatim>\<open>getFieldType\<close>, on the kind of the member's Go type.\<close>

definition typeFromKind :: "'f go_runtime \<Rightarrow> StructField \<Rightarrow> FieldType" where
  "typeFromKind E field =
     (if sf_Kind field = reflect_Bool then FieldTypeCheckbox
      else if sf_Kind field \<in> {reflect_Int, reflect_Int8, reflect_Int16, reflect_Int32,
                reflect_Int64, reflect_Uint, reflect_Uint8, reflect_Uint16, reflect_Uint32,
                reflect_Uint64, reflect_Float32, reflect_Float64} then FieldTypeNumber
      else if sf_Kind field = reflect_String then
        (let fieldName = strings_ToLower E (sf_Name field) in
         if strings_Contains fieldName ''email'' then FieldTypeEmail
         else if strings_Contains fieldName ''password'' then FieldTypePassword
         else FieldTypeText)
      else FieldTypeText)"

definition getFieldType :: "'f go_runtime \<Rightarrow> StructField \<Rightarrow> FieldType" where
  "getFieldType E field =
     (let fieldType = sf_Tag field ''type'' in
      if fieldType \<noteq> [] \<and> fieldType = ''email'' then FieldTypeEmail
      else if fieldType \<noteq> [] \<and> fieldType = ''password'' then FieldTypePassword
      else if fieldType \<noteq> [] \<and> fieldType = ''textarea'' then FieldTypeTextarea
      else if fieldType \<noteq> [] \<and> fieldType = ''select'' then FieldTypeSelect
      else if fieldType \<noteq> [] \<and> fieldType = ''radio'' then FieldTypeRadio
      else if fieldType \<noteq> [] \<and> fieldType = ''checkbox'' then FieldTypeCheckbox
      else if fieldType \<noteq> [] \<and> fieldType = ''date'' then FieldTypeDate
      else if fieldType \<noteq> [] \<and> fieldType = ''time'' then FieldTypeTime
      else if fieldType \<noteq> [] \<and> fieldType = ''file'' then FieldTypeFile
      else if fieldType \<noteq> [] \<and> fieldType = ''hidden'' then FieldTypeHidden
      else if fieldType \<noteq> [] \<and> fieldType = ''number'' then FieldTypeNumber
      else typeFromKind E field)"

definition getFieldRequired :: "StructField \<Rightarrow> bool" where
  "getFieldRequired field =
     (sf_Tag field ''required'' = ''true'' \<or> sf_Tag field ''required'' = ''1'')"

definition createFieldFromStructField :: "'f go_runtime \<Rightarrow> StructField \<Rightarrow> 'f Field" where
  "createFieldFromStructField E field =
     (let formField = zero_Field
            \<lparr> Name := getFieldName E field,
              Label := getFieldLabel field,
              Type := getFieldType E field,
              Required := getFieldRequired field,
              Validation := [] \<rparr>
      in if Type formField = FieldTypeEmail
         then formField
                \<lparr> Validation := Validation formField @
                    [\<lparr> rule_Type = ''email'', rule_Value = VNil, rule_Message = msg_valid_email \<rparr>] \<rparr>
         else formField)"

text \<open>
  The builder (\<^verbatim>\<open>NewForm\<close>, \<^verbatim>\<open>AddField\<close>) holds the form it builds; it is modelled
  by that form.
\<close>

definition NewForm :: "string \<Rightarrow> string \<Rightarrow> 'f Form" where
  "NewForm name title =
     \<lparr> form_Name = name, form_Title = title, form_Description = [], Fields = [], Groups = [] \<rparr>"

definition AddField :: "'f Form \<Rightarrow> 'f Field \<Rightarrow> 'f Form" where
  "AddField fb field = fb\<lparr> Fields := Fields fb @ [field] \<rparr>"

fun FromStruct_loop :: "'f go_runtime \<Rightarrow> StructField list \<Rightarrow> 'f Form \<Rightarrow> 'f Form" where
  "FromStruct_loop E [] fb = fb"
| "FromStruct_loop E (field # rest) fb =
     (if \<not> sf_IsExported field then FromStruct_loop E rest fb
      else
        (let formField = createFieldFromStructField E field in
         if Name formField \<noteq> [] then FromStruct_loop E rest (AddField fb formField)
         else FromStruct_loop E rest fb))"

definition FromStruct :: "'f go_runtime \<Rightarrow> string \<Rightarrow> string \<Rightarrow> reflect_Type option \<Rightarrow> 'f Form option" where
  "FromStruct E name title structType =
     (case structType of
        None \<Rightarrow> None
      | Some t0 \<Rightarrow>
          (let t = (case t0 of TypePtr elem \<Rightarrow> elem | _ \<Rightarrow> t0) in
           case t of
             TypeStruct members \<Rightarrow> Some (FromStruct_loop E members (NewForm name title))
           | _ \<Rightarrow> Some (NewForm name title)))"

section \<open>Schema generation (package schema)\<close>

text \<open>
  A \<^verbatim>\<open>map[string]interface{}\<close> is a partial function from keys; an assignment
  \<^verbatim>\<open>m[k] = v\<close> is a map update, \<^verbatim>\<open>len(m) > 0\<close> is \<open>m \<noteq> Map.empty\<close>.
\<close>

record 'f JSONSchema =
  js_Schema :: string
  js_Type :: string
  js_Title :: string
  js_Description :: string
  js_Properties :: "'f gmap"
  js_Required :: "string list"
  js_Definitions :: "'f gmap"

datatype schema_error = FieldSchemaError string string

definition getOptionValues :: "SelectOption list \<Rightarrow> string list" where
  "getOptionValues options = map opt_Value options"

definition convertOptionsToEnumOptions :: "SelectOption list \<Rightarrow> 'f gmap list" where
  "convertOptionsToEnumOptions options =
     map (\<lambda>option. [''value'' \<mapsto> VString (opt_Value option),
                     ''label'' \<mapsto> VString (opt_Label option)]) options"

definition generateTableColumnSchema :: "'f gmap" where
  "generateTableColumnSchema =
     [''type'' \<mapsto> VString ''object'',
      ''properties'' \<mapsto> VMap
        [''key'' \<mapsto> VMap [''type'' \<mapsto> VString ''string''],
         ''title'' \<mapsto> VMap [''type'' \<mapsto> VString ''string''],
         ''type'' \<mapsto> VMap [''type'' \<mapsto> VString ''string''],
         ''sortable'' \<mapsto> VMap [''type'' \<mapsto> VString ''boolean''],
         ''filterable'' \<mapsto> VMap [''type'' \<mapsto> VString ''boolean''],
         ''width'' \<mapsto> VMap [''type'' \<mapsto> VString ''string''],
         ''align'' \<mapsto> VMap [''type'' \<mapsto> VString ''string'']]]"

text \<open>The title of a table's schema, "Table" in Russian, in UTF-8.\<close>

definition table_title :: string where
  "table_title =
     [CHR 0xD0, CHR 0xA2, CHR 0xD0, CHR 0xB0, CHR 0xD0, CHR 0xB1, CHR 0xD0, CHR 0xBB,
      CHR 0xD0, CHR 0xB8, CHR 0xD1, CHR 0x86, CHR 0xD0, CHR 0xB0]"

definition generateTableSchema :: "TableConfig \<Rightarrow> 'f gmap" where
  "generateTableSchema config =
     [''type'' \<mapsto> VString ''object'',
      ''title'' \<mapsto> VString table_title,
      ''properties'' \<mapsto> VMap
        [''columns'' \<mapsto> VMap [''type'' \<mapsto> VString ''array'',
                                  ''items'' \<mapsto> VMap generateTableColumnSchema],
         ''rows'' \<mapsto> VMap [''type'' \<mapsto> VString ''array'',
                               ''items'' \<mapsto> VMap [''type'' \<mapsto> VString ''object'']],
         ''total'' \<mapsto> VMap [''type'' \<mapsto> VString ''integer''],
         ''page'' \<mapsto> VMap [''type'' \<mapsto> VString ''integer''],
         ''limit'' \<mapsto> VMap [''type'' \<mapsto> VString ''integer'']]]"

definition generateTableUIOptions :: "TableConfig \<Rightarrow> 'f gmap" where
  "generateTableUIOptions config =
     [''pagination'' \<mapsto> VBool (tc_Pagination config),
      ''pageSize'' \<mapsto> VInt (tc_PageSize config),
      ''sortable'' \<mapsto> VBool (tc_Sortable config),
      ''filterable'' \<mapsto> VBool (tc_Filterable config),
      ''selectable'' \<mapsto> VBool (tc_Selectable config),
      ''editable'' \<mapsto> VBool (tc_Editable config),
      ''columns'' \<mapsto> VColumns (tc_Columns config)]"

text \<open>The first switch of \<^verbatim>\<open>generateFieldSchema\<close>: the type and format of the field.\<close>

definition schemaOfType :: "'f Field \<Rightarrow> 'f gmap" where
  "schemaOfType field =
     (let fieldSchema = [''title'' \<mapsto> VString (Label field),
                         ''description'' \<mapsto> VString (Description field)] in
      if Type field = FieldTypeText then
        (let fieldSchema = fieldSchema(''type'' \<mapsto> VString ''string'') in
         if Placeholder field \<noteq> [] then fieldSchema(''examples'' \<mapsto> VStrings [Placeholder field])
         else fieldSchema)
      else if Type field = FieldTypeEmail then
        fieldSchema(''type'' \<mapsto> VString ''string'', ''format'' \<mapsto> VString ''email'')
      else if Type field = FieldTypePassword then
        fieldSchema(''type'' \<mapsto> VString ''string'', ''format'' \<mapsto> VString ''password'')
      else if Type field = FieldTypeNumber then
        fieldSchema(''type'' \<mapsto> VString ''number'')
      else if Type field = FieldTypeTextarea then
        fieldSchema(''type'' \<mapsto> VString ''string'')
      else if Type field = FieldTypeDate then
        fieldSchema(''type'' \<mapsto> VString ''string'', ''format'' \<mapsto> VString ''date'')
      else if Type field = FieldTypeTime then
        fieldSchema(''type'' \<mapsto> VString ''string'', ''format'' \<mapsto> VString ''time'')
      else if Type field = FieldTypeFile then
        fieldSchema(''type'' \<mapsto> VString ''string'', ''format'' \<mapsto> VString ''data-url'')
      else if Type field = FieldTypeCheckbox then
        fieldSchema(''type'' \<mapsto> VString ''boolean'')
      else if Type field = FieldTypeRadio \<or> Type field = FieldTypeSelect then
        (if Multiple field then
           fieldSchema(''type'' \<mapsto> VString ''array'',
                       ''items'' \<mapsto> VMap [''type'' \<mapsto> VString ''string'',
                                              ''enum'' \<mapsto> VStrings (getOptionValues (Options field))],
                       ''uniqueItems'' \<mapsto> VBool True)
         else
           fieldSchema(''type'' \<mapsto> VString ''string'',
                       ''enum'' \<mapsto> VStrings (getOptionValues (Options field))))
      else if Type field = FieldTypeTable then
        (case TableConfig field of
           Some config \<Rightarrow> generateTableSchema config
         | None \<Rightarrow> fieldSchema(''type'' \<mapsto> VString ''object''))
      else fieldSchema(''type'' \<mapsto> VString ''string''))"

text \<open>
  The type assertions \<^verbatim>\<open>rule.Value.(float64)\<close> and \<^verbatim>\<open>rule.Value.(string)\<close>:
  the value when it has that dynamic type, \<open>None\<close> when \<^verbatim>\<open>ok\<close> is false.
\<close>

fun asFloat64 :: "'f gvalue \<Rightarrow> 'f option" where
  "asFloat64 (VFloat64 num) = Some num"
| "asFloat64 _ = None"

fun asString :: "'f gvalue \<Rightarrow> string option" where
  "asString (VString str) = Some str"
| "asString _ = None"

text \<open>
  The body of the loop over \<^verbatim>\<open>field.Validation\<close>: a rule whose parameter is a
  \<^verbatim>\<open>float64\<close> (a string for \<^verbatim>\<open>pattern\<close>) sets its keyword, every other rule
  leaves the schema as it is. \<^verbatim>\<open>int(num)\<close> is the machine's conversion.
\<close>

definition projectRule :: "'f go_runtime \<Rightarrow> 'f ValidationRule \<Rightarrow> 'f gmap \<Rightarrow> 'f gmap" where
  "projectRule E rule fieldSchema =
     (if rule_Type rule = ''min'' then
        (case asFloat64 (rule_Value rule) of
           Some num \<Rightarrow> fieldSchema(''minimum'' \<mapsto> VFloat64 num)
         | None \<Rightarrow> fieldSchema)
      else if rule_Type rule = ''max'' then
        (case asFloat64 (rule_Value rule) of
           Some num \<Rightarrow> fieldSchema(''maximum'' \<mapsto> VFloat64 num)
         | None \<Rightarrow> fieldSchema)
      else if rule_Type rule = ''minLength'' then
        (case asFloat64 (rule_Value rule) of
           Some num \<Rightarrow> fieldSchema(''minLength'' \<mapsto> VInt (int_of_float64 E num))
         | None \<Rightarrow> fieldSchema)
      else if rule_Type rule = ''maxLength'' then
        (case asFloat64 (rule_Value rule) of
           Some num \<Rightarrow> fieldSchema(''maxLength'' \<mapsto> VInt (int_of_float64 E num))
         | None \<Rightarrow> fieldSchema)
      else if rule_Type rule = ''pattern'' then
        (case asString (rule_Value rule) of
           Some pattern \<Rightarrow> fieldSchema(''pattern'' \<mapsto> VString pattern)
         | None \<Rightarrow> fieldSchema)
      else fieldSchema)"

fun projectRules :: "'f go_runtime \<Rightarrow> 'f ValidationRule list \<Rightarrow> 'f gmap \<Rightarrow> 'f gmap" where
  "projectRules E [] fieldSchema = fieldSchema"
| "projectRules E (rule # rules) fieldSchema = projectRules E rules (projectRule E rule fieldSchema)"

text \<open>\<^verbatim>\<open>generateFieldSchema\<close> returns its map and the error \<^verbatim>\<open>nil\<close> on every path.\<close>

definition generateFieldSchema :: "'f go_runtime \<Rightarrow> 'f Field \<Rightarrow> string + 'f gmap" where
  "generateFieldSchema E field =
     (let fieldSchema = schemaOfType field;
          fieldSchema = (if DefaultValue field \<noteq> VNil
                         then fieldSchema(''default'' \<mapsto> DefaultValue field)
                         else fieldSchema)
      in Inr (projectRules E (Validation field) fieldSchema))"

fun GenerateJSONSchema_loop ::
  "'f go_runtime \<Rightarrow> 'f Field list \<Rightarrow> 'f JSONSchema \<Rightarrow> schema_error + 'f JSONSchema" where
  "GenerateJSONSchema_loop E [] schema = Inr schema"
| "GenerateJSONSchema_loop E (field # rest) schema =
     (if Type field = FieldTypeHidden then GenerateJSONSchema_loop E rest schema
      else
        (case generateFieldSchema E field of
           Inl err \<Rightarrow> Inl (FieldSchemaError (Name field) err)
         | Inr fieldSchema \<Rightarrow>
             (let schema = schema\<lparr> js_Properties := (js_Properties schema)(Name field \<mapsto> VMap fieldSchema) \<rparr>;
                  schema = (if Required field
                            then schema\<lparr> js_Required := js_Required schema @ [Name field] \<rparr>
                            else schema)
              in GenerateJSONSchema_loop E rest schema)))"

definition GenerateJSONSchema :: "'f go_runtime \<Rightarrow> 'f Form \<Rightarrow> schema_error + 'f JSONSchema" where
  "GenerateJSONSchema E form =
     GenerateJSONSchema_loop E (Fields form)
       \<lparr> js_Schema = ''https://json-schema.org/draft/2020-12/schema'',
         js_Type = ''object'',
         js_Title = form_Title form,
         js_Description = form_Description form,
         js_Properties = Map.empty,
         js_Required = [],
         js_Definitions = Map.empty \<rparr>"

text \<open>The switch of \<^verbatim>\<open>generateFieldUISchema\<close>: the widget of the field and its options.\<close>

definition widgetOfType :: "'f Field \<Rightarrow> 'f gmap" where
  "widgetOfType field =
     (let uiSchema = Map.empty in
      if Type field = FieldTypePassword then uiSchema(''ui:widget'' \<mapsto> VString ''password'')
      else if Type field = FieldTypeTextarea then
        uiSchema(''ui:widget'' \<mapsto> VString ''textarea'',
                 ''ui:options'' \<mapsto> VMap [''rows'' \<mapsto> VInt 4])
      else if Type field = FieldTypeFile then uiSchema(''ui:widget'' \<mapsto> VString ''file'')
      else if Type field = FieldTypeCheckbox then uiSchema(''ui:widget'' \<mapsto> VString ''checkbox'')
      else if Type field = FieldTypeRadio then
        (let uiSchema = uiSchema(''ui:widget'' \<mapsto> VString ''radio'') in
         if length (Options field) > 0
         then uiSchema(''ui:options'' \<mapsto>
                VMap [''enumOptions'' \<mapsto> VMaps (convertOptionsToEnumOptions (Options field))])
         else uiSchema)
      else if Type field = FieldTypeSelect then
        (let uiSchema = (if Multiple field then uiSchema(''ui:widget'' \<mapsto> VString ''checkboxes'')
                         else uiSchema(''ui:widget'' \<mapsto> VString ''select'')) in
         if length (Options field) > 0
         then uiSchema(''ui:options'' \<mapsto>
                VMap [''enumOptions'' \<mapsto> VMaps (convertOptionsToEnumOptions (Options field))])
         else uiSchema)
      else if Type field = FieldTypeTable then
        (let uiSchema = uiSchema(''ui:widget'' \<mapsto> VString ''table'') in
         case TableConfig field of
           Some config \<Rightarrow> uiSchema(''ui:options'' \<mapsto> VMap (generateTableUIOptions config))
         | None \<Rightarrow> uiSchema)
      else if Type field = FieldTypeHidden then uiSchema(''ui:widget'' \<mapsto> VString ''hidden'')
      else uiSchema)"

text \<open>
  The last block of \<^verbatim>\<open>generateFieldUISchema\<close>. The loop
  \<^verbatim>\<open>for key, value := range field.Config { optionsMap[key] = value }\<close> assigns every
  entry of the config to the options map, which is the map stored under
  \<^verbatim>\<open>ui:options\<close>: the result is \<open>optionsMap ++ Config field\<close>, in whatever order Go
  visits the keys.
\<close>

definition mergeConfig :: "'f Field \<Rightarrow> 'f gmap \<Rightarrow> 'f gmap" where
  "mergeConfig field uiSchema =
     (if Config field \<noteq> Map.empty then
        (case uiSchema ''ui:options'' of
           Some uiOptions \<Rightarrow>
             (case uiOptions of
                VMap optionsMap \<Rightarrow> uiSchema(''ui:options'' \<mapsto> VMap (optionsMap ++ Config field))
              | _ \<Rightarrow> uiSchema)
         | None \<Rightarrow> uiSchema(''ui:options'' \<mapsto> VMap (Config field)))
      else uiSchema)"

definition generateFieldUISchema :: "'f Field \<Rightarrow> 'f gmap" where
  "generateFieldUISchema field =
     (let uiSchema = widgetOfType field;
          uiSchema = (if Placeholder field \<noteq> []
                      then uiSchema(''ui:placeholder'' \<mapsto> VString (Placeholder field))
                      else uiSchema);
          uiSchema = (if Disabled field then uiSchema(''ui:disabled'' \<mapsto> VBool True)
                      else uiSchema);
          uiSchema = (if Group field \<noteq> [] then uiSchema(''ui:group'' \<mapsto> VString (Group field))
                      else uiSchema)
      in mergeConfig field uiSchema)"

text \<open>The three parts of \<^verbatim>\<open>GenerateUISchema\<close>: the order, the fields, the groups.\<close>

fun uiOrder :: "'f Field list \<Rightarrow> string list \<Rightarrow> string list" where
  "uiOrder [] order = order"
| "uiOrder (field # rest) order =
     (if Type field \<noteq> FieldTypeHidden then uiOrder rest (order @ [Name field])
      else uiOrder rest order)"

fun uiFields :: "'f Field list \<Rightarrow> 'f gmap \<Rightarrow> 'f gmap" where
  "uiFields [] uiSchema = uiSchema"
| "uiFields (field # rest) uiSchema =
     (let fieldUI = generateFieldUISchema field in
      if fieldUI \<noteq> Map.empty then uiFields rest (uiSchema(Name field \<mapsto> VMap fieldUI))
      else uiFields rest uiSchema)"

definition uiGroups :: "FieldGroup list \<Rightarrow> 'f gmap list" where
  "uiGroups groups =
     map (\<lambda>group. [''ui:title'' \<mapsto> VString (grp_Title group),
                    ''ui:description'' \<mapsto> VString (grp_Description group),
                    ''ui:fields'' \<mapsto> VStrings (grp_Fields group)]) groups"

definition GenerateUISchema :: "'f Form \<Rightarrow> 'f gmap" where
  "GenerateUISchema form =
     (let uiSchema = [''ui:order'' \<mapsto> VStrings (uiOrder (Fields form) [])];
          uiSchema = uiFields (Fields form) uiSchema
      in if length (Groups form) > 0
         then uiSchema(''ui:groups'' \<mapsto> VMaps (uiGroups (Groups form)))
         else uiSchema)"

text \<open>Reading a hint back: the entry \<open>k\<close> of the options map of a field's UI schema.\<close>

definition uiOption :: "'f gmap \<Rightarrow> string \<Rightarrow> 'f gvalue option" where
  "uiOption uiSchema k =
     (case uiSchema ''ui:options'' of Some (VMap optionsMap) \<Rightarrow> optionsMap k | _ \<Rightarrow> None)"

text \<open>
  Reading a constraint back: the keyword \<open>k\<close> of the property \<open>name\<close> of a
  presentation schema.
\<close>

definition schemaKeyword :: "'f JSONSchema \<Rightarrow> string \<Rightarrow> string \<Rightarrow> 'f gvalue option" where
  "schemaKeyword schema name k =
     (case js_Properties schema name of Some (VMap fieldSchema) \<Rightarrow> fieldSchema k | _ \<Rightarrow> None)"

section \<open>An interpretation of the library for evaluating examples\<close>

text \<open>
  The examples below are evaluated in the following interpretation. It reads the floats as
  the whole numbers, and it agrees with Go on what the examples use: strings of ASCII
  characters for \<^verbatim>\<open>TrimSpace\<close> and \<^verbatim>\<open>ToLower\<close>, decimal numerals for
  \<^verbatim>\<open>Atoi\<close> and \<^verbatim>\<open>ParseFloat\<close> (whole numbers only), and the one
  pattern \<^verbatim>\<open>^\d+$\<close> for \<^verbatim>\<open>regexp.Compile\<close>, which refuses every other pattern.
\<close>

definition ascii_space :: "char \<Rightarrow> bool" where
  "ascii_space c = (c \<in> set [CHR 0x09, CHR 0x0A, CHR 0x0B, CHR 0x0C, CHR 0x0D, CHR 0x20])"

definition ascii_trim :: "string \<Rightarrow> string" where
  "ascii_trim s = rev (dropWhile ascii_space (rev (dropWhile ascii_space s)))"

definition ascii_lower :: "string \<Rightarrow> string" where
  "ascii_lower s =
     map (\<lambda>c. case map_of (zip ''ABCDEFGHIJKLMNOPQRSTUVWXYZ'' ''abcdefghijklmnopqrstuvwxyz'') c of
                 Some l \<Rightarrow> l
               | None \<Rightarrow> c) s"

fun decimal :: "string \<Rightarrow> nat \<Rightarrow> nat option" where
  "decimal [] acc = Some acc"
| "decimal (c # cs) acc =
     (case map_of (zip ''0123456789'' [0, 1, 2, 3, 4, 5, 6, 7, 8, 9]) c of
        None \<Rightarrow> None
      | Some d \<Rightarrow> decimal cs (10 * acc + d))"

definition parse_int :: "string \<Rightarrow> int option" where
  "parse_int s =
     (case s of
        [] \<Rightarrow> None
      | c # cs \<Rightarrow>
          if c = CHR ''-'' then (if cs = [] then None else map_option (\<lambda>n. - int n) (decimal cs 0))
          else if c = CHR ''+'' then (if cs = [] then None else map_option int (decimal cs 0))
          else map_option int (decimal s 0))"

definition digits_pattern :: string where
  "digits_pattern = [CHR ''^'', CHR 0x5C, CHR ''d'', CHR ''+'', CHR ''$'']"

definition rt_ascii :: "int go_runtime" where
  "rt_ascii =
     \<lparr> strings_TrimSpace = ascii_trim,
       strings_ToLower = ascii_lower,
       regexp_Compile =
         (\<lambda>p. if p = digits_pattern then Inr (rx_match (rx_plus (RxChars rx_digits)))
              else Inl ''unsupported pattern''),
       strconv_ParseFloat =
         (\<lambda>s. case parse_int s of None \<Rightarrow> Inl ''invalid syntax'' | Some n \<Rightarrow> Inr n),
       strconv_Atoi =
         (\<lambda>s. case parse_int s of
                None \<Rightarrow> Inl ''invalid syntax''
              | Some n \<Rightarrow>
                  if - (2 ^ 63) \<le> n \<and> n < 2 ^ 63 then Inr n else Inl ''value out of range''),
       float64_of_float32 = (\<lambda>x. x),
       float64_of_int = (\<lambda>n. n),
       int_of_float64 = (\<lambda>x. x),
       int_of_float32 = (\<lambda>x. x),
       float64_less = (\<lambda>x y. x < y) \<rparr>"

section \<open>Properties of field validation\<close>

lemmas rt_ascii_simps =
  rt_ascii_def ascii_trim_def ascii_space_def ascii_lower_def parse_int_def digits_pattern_def

lemma isEmpty_iff:
  "isEmpty E v \<longleftrightarrow>
     v = VNil \<or> (\<exists>s. v = VString s \<and> strings_TrimSpace E s = []) \<or> v = VList []"
  by (cases v) auto

text \<open>
  Claim C5. For every field and every value: if the value is empty (nil, a string that
  \<^verbatim>\<open>TrimSpace\<close> reduces to the empty string, or an empty list), then
  \<^verbatim>\<open>ValidateField\<close> returns the missing-required-field error when the field is
  required, and \<^verbatim>\<open>nil\<close> when it is not; in both cases whatever the rules of the field
  are, so that no rule decides the result.
\<close>

theorem ValidateField_empty_value:
  assumes "v = VNil \<or> (\<exists>s. v = VString s \<and> strings_TrimSpace E s = []) \<or> v = VList []"
  shows "ValidateField E (field\<lparr>Validation := rules\<rparr>) v =
           (if Required field then Some RequiredField else None)"
proof -
  from assms have "isEmpty E v" by (simp add: isEmpty_iff)
  then show ?thesis by (simp add: ValidateField_def)
qed

theorem ValidateField_empty_value_witness:
  "ValidateField rt_ascii
     (zero_Field\<lparr>Required := True\<rparr>
        \<lparr>Validation := [\<lparr>rule_Type = ''minLength'', rule_Value = VInt 5, rule_Message = []\<rparr>]\<rparr>)
     (VString [CHR 0x20, CHR 0x09, CHR 0x20]) = Some RequiredField
   \<and> ValidateField rt_ascii
     (zero_Field\<lparr>Validation := [\<lparr>rule_Type = ''minLength'', rule_Value = VInt 5, rule_Message = []\<rparr>]\<rparr>)
     (VString [CHR 0x20, CHR 0x09, CHR 0x20]) = None
   \<and> validateRule rt_ascii (VString [CHR 0x20, CHR 0x09, CHR 0x20])
        \<lparr>rule_Type = ''minLength'', rule_Value = VInt 5, rule_Message = []\<rparr> = Some (TooShort 5)"
proof -
  have e: "strings_TrimSpace rt_ascii [CHR 0x20, CHR 0x09, CHR 0x20] = []"
    by (simp add: rt_ascii_simps)
  have r: "validateRule rt_ascii (VString [CHR 0x20, CHR 0x09, CHR 0x20])
        \<lparr>rule_Type = ''minLength'', rule_Value = VInt 5, rule_Message = []\<rparr> = Some (TooShort 5)"
    by (simp add: validateRule_def validateMinLength_def failure_def)
  show ?thesis
    using ValidateField_empty_value [where E = rt_ascii and v = "VString [CHR 0x20, CHR 0x09, CHR 0x20]"
        and field = "zero_Field\<lparr>Required := True\<rparr>"
        and rules = "[\<lparr>rule_Type = ''minLength'', rule_Value = VInt 5, rule_Message = []\<rparr>]"]
      ValidateField_empty_value [where E = rt_ascii and v = "VString [CHR 0x20, CHR 0x09, CHR 0x20]"
        and field = "zero_Field"
        and rules = "[\<lparr>rule_Type = ''minLength'', rule_Value = VInt 5, rule_Message = []\<rparr>]"]
      e r
    by (simp add: zero_Field_def)
qed


lemma applyRules_None_iff:
  "applyRules E v rules = None \<longleftrightarrow> (\<forall>r\<in>set rules. validateRule E v r = None)"
  by (induction rules) (auto split: option.splits)

lemma applyRules_first_error:
  "(\<forall>p\<in>set pre. validateRule E v p = None) \<Longrightarrow> validateRule E v r = Some e
    \<Longrightarrow> applyRules E v (pre @ r # post) = Some e"
  by (induction pre) auto

lemma applyRules_Some_split:
  "applyRules E v rules = Some e \<Longrightarrow>
     \<exists>pre r post. rules = pre @ r # post \<and> (\<forall>p\<in>set pre. validateRule E v p = None)
        \<and> validateRule E v r = Some e"
proof (induction rules)
  case Nil
  then show ?case by simp
next
  case (Cons a rules)
  show ?case
  proof (cases "validateRule E v a")
    case None
    with Cons.prems have "applyRules E v rules = Some e" by simp
    from Cons.IH [OF this] obtain pre r post where
      "rules = pre @ r # post" "\<forall>p\<in>set pre. validateRule E v p = None" "validateRule E v r = Some e"
      by blast
    with None have "a # rules = (a # pre) @ r # post \<and> (\<forall>p\<in>set (a # pre). validateRule E v p = None)
        \<and> validateRule E v r = Some e" by simp
    then show ?thesis by blast
  next
    case (Some e')
    with Cons.prems have "e' = e" by simp
    with Some have "a # rules = [] @ a # rules \<and> (\<forall>p\<in>set []. validateRule E v p = None)
        \<and> validateRule E v a = Some e" by simp
    then show ?thesis by blast
  qed
qed

lemma failure_cases:
  "failure m d = Some e \<Longrightarrow> (m \<noteq> [] \<and> e = CustomMessage m) \<or> (m = [] \<and> e = d)"
  by (auto simp: failure_def split: if_splits)

lemma toFloat64_error:
  "toFloat64 E w = Inl e \<Longrightarrow> (\<exists>m. e = StrconvError m) \<or> (\<exists>u. e = NoFloatConversion u)"
  by (cases w) (auto split: sum.splits)

lemma toInt_error:
  "toInt E w = Inl e \<Longrightarrow> (\<exists>m. e = StrconvError m) \<or> (\<exists>u. e = NoIntConversion u)"
  by (cases w) (auto split: sum.splits)

lemma validateEmail_error:
  "validateEmail v m = Some e \<Longrightarrow>
     (m \<noteq> [] \<and> e = CustomMessage m) \<or> (m = [] \<and> e = InvalidEmail) \<or> e = NotAString"
  by (cases v) (auto simp: validateEmail_def dest: failure_cases split: if_splits)

lemma validateMin_error:
  "validateMin E v p m = Some e \<Longrightarrow>
     (m \<noteq> [] \<and> e = CustomMessage m) \<or> (m = [] \<and> (\<exists>b. toFloat64 E p = Inr b \<and> e = BelowMin b))
     \<or> (\<exists>t. e = StrconvError t) \<or> (\<exists>u. e = NoFloatConversion u)"
  by (auto simp: validateMin_def dest!: failure_cases toFloat64_error split: sum.splits if_splits)

lemma validateMax_error:
  "validateMax E v p m = Some e \<Longrightarrow>
     (m \<noteq> [] \<and> e = CustomMessage m) \<or> (m = [] \<and> (\<exists>b. toFloat64 E p = Inr b \<and> e = AboveMax b))
     \<or> (\<exists>t. e = StrconvError t) \<or> (\<exists>u. e = NoFloatConversion u)"
  by (auto simp: validateMax_def dest!: failure_cases toFloat64_error split: sum.splits if_splits)

lemma validateMinLength_error:
  "validateMinLength E v p m = Some e \<Longrightarrow>
     (m \<noteq> [] \<and> e = CustomMessage m) \<or> (m = [] \<and> (\<exists>n. toInt E p = Inr n \<and> e = TooShort n))
     \<or> e = NotAString \<or> (\<exists>t. e = StrconvError t) \<or> (\<exists>u. e = NoIntConversion u)"
  by (cases v) (auto simp: validateMinLength_def dest!: failure_cases toInt_error split: sum.splits if_splits)

lemma validateMaxLength_error:
  "validateMaxLength E v p m = Some e \<Longrightarrow>
     (m \<noteq> [] \<and> e = CustomMessage m) \<or> (m = [] \<and> (\<exists>n. toInt E p = Inr n \<and> e = TooLong n))
     \<or> e = NotAString \<or> (\<exists>t. e = StrconvError t) \<or> (\<exists>u. e = NoIntConversion u)"
  by (cases v) (auto simp: validateMaxLength_def dest!: failure_cases toInt_error split: sum.splits if_splits)

lemma validatePattern_error:
  "validatePattern E v p m = Some e \<Longrightarrow>
     (m \<noteq> [] \<and> e = CustomMessage m) \<or> (m = [] \<and> e = PatternMismatch)
     \<or> e = NotAString \<or> e = PatternNotString \<or> (\<exists>t. e = BadRegexp t)"
  by (cases v; cases p) (auto simp: validatePattern_def dest!: failure_cases split: sum.splits if_splits)

lemma validateRule_error:
  assumes "validateRule E v r = Some e"
  shows "(rule_Message r \<noteq> [] \<and> e = CustomMessage (rule_Message r))
     \<or> (rule_Message r = [] \<and>
          (rule_Type r = ''email'' \<and> e = InvalidEmail
         \<or> rule_Type r = ''min'' \<and> (\<exists>b. toFloat64 E (rule_Value r) = Inr b \<and> e = BelowMin b)
         \<or> rule_Type r = ''max'' \<and> (\<exists>b. toFloat64 E (rule_Value r) = Inr b \<and> e = AboveMax b)
         \<or> rule_Type r = ''minLength'' \<and> (\<exists>n. toInt E (rule_Value r) = Inr n \<and> e = TooShort n)
         \<or> rule_Type r = ''maxLength'' \<and> (\<exists>n. toInt E (rule_Value r) = Inr n \<and> e = TooLong n)
         \<or> rule_Type r = ''pattern'' \<and> e = PatternMismatch))
     \<or> e = NotAString \<or> e = PatternNotString \<or> (\<exists>t. e = BadRegexp t)
     \<or> (\<exists>t. e = StrconvError t) \<or> (\<exists>u. e = NoFloatConversion u) \<or> (\<exists>u. e = NoIntConversion u)"
proof -
  consider "rule_Type r = ''email''" | "rule_Type r = ''min''" | "rule_Type r = ''max''"
    | "rule_Type r = ''minLength''" | "rule_Type r = ''maxLength''" | "rule_Type r = ''pattern''"
    | "rule_Type r \<notin> {''email'', ''min'', ''max'', ''minLength'', ''maxLength'', ''pattern''}"
    by auto
  then show ?thesis
  proof cases
    case 1
    with assms have "validateEmail v (rule_Message r) = Some e" by (simp add: validateRule_def)
    from validateEmail_error [OF this] 1 show ?thesis by blast
  next
    case 2
    with assms have "validateMin E v (rule_Value r) (rule_Message r) = Some e"
      by (simp add: validateRule_def)
    from validateMin_error [OF this] 2 show ?thesis by blast
  next
    case 3
    with assms have "validateMax E v (rule_Value r) (rule_Message r) = Some e"
      by (simp add: validateRule_def)
    from validateMax_error [OF this] 3 show ?thesis by blast
  next
    case 4
    with assms have "validateMinLength E v (rule_Value r) (rule_Message r) = Some e"
      by (simp add: validateRule_def)
    from validateMinLength_error [OF this] 4 show ?thesis by blast
  next
    case 5
    with assms have "validateMaxLength E v (rule_Value r) (rule_Message r) = Some e"
      by (simp add: validateRule_def)
    from validateMaxLength_error [OF this] 5 show ?thesis by blast
  next
    case 6
    with assms have "validatePattern E v (rule_Value r) (rule_Message r) = Some e"
      by (simp add: validateRule_def)
    from validatePattern_error [OF this] 6 show ?thesis by blast
  next
    case 7
    with assms show ?thesis by (simp add: validateRule_def)
  qed
qed

text \<open>What a rule returns when it cannot be evaluated: the message of the rule plays no part.\<close>

lemma validateRule_cannot_evaluate:
  "(rule_Type r \<in> {''email'', ''minLength'', ''maxLength'', ''pattern''} \<and> (\<forall>s. v \<noteq> VString s)
      \<longrightarrow> validateRule E v r = Some NotAString)
   \<and> (\<forall>err. rule_Type r \<in> {''min'', ''max''} \<and> toFloat64 E v = Inl err
      \<longrightarrow> validateRule E v r = Some err)
   \<and> (\<forall>num err. rule_Type r \<in> {''min'', ''max''} \<and> toFloat64 E v = Inr num
        \<and> toFloat64 E (rule_Value r) = Inl err
      \<longrightarrow> validateRule E v r = Some err)
   \<and> (\<forall>s err. rule_Type r \<in> {''minLength'', ''maxLength''} \<and> v = VString s
        \<and> toInt E (rule_Value r) = Inl err
      \<longrightarrow> validateRule E v r = Some err)
   \<and> (\<forall>s. rule_Type r = ''pattern'' \<and> v = VString s \<and> (\<forall>p. rule_Value r \<noteq> VString p)
      \<longrightarrow> validateRule E v r = Some PatternNotString)
   \<and> (\<forall>s p err. rule_Type r = ''pattern'' \<and> v = VString s \<and> rule_Value r = VString p
        \<and> regexp_Compile E p = Inl err
      \<longrightarrow> validateRule E v r = Some (BadRegexp err))"
proof -
  have 1: "rule_Type r \<in> {''email'', ''minLength'', ''maxLength'', ''pattern''} \<and> (\<forall>s. v \<noteq> VString s)
      \<longrightarrow> validateRule E v r = Some NotAString"
    by (cases v) (auto simp: validateRule_def validateEmail_def validateMinLength_def
        validateMaxLength_def validatePattern_def)
  have 2: "\<forall>err. rule_Type r \<in> {''min'', ''max''} \<and> toFloat64 E v = Inl err
      \<longrightarrow> validateRule E v r = Some err"
    by (auto simp: validateRule_def validateMin_def validateMax_def)
  have 3: "\<forall>num err. rule_Type r \<in> {''min'', ''max''} \<and> toFloat64 E v = Inr num
        \<and> toFloat64 E (rule_Value r) = Inl err
      \<longrightarrow> validateRule E v r = Some err"
    by (auto simp: validateRule_def validateMin_def validateMax_def)
  have 4: "\<forall>s err. rule_Type r \<in> {''minLength'', ''maxLength''} \<and> v = VString s
        \<and> toInt E (rule_Value r) = Inl err
      \<longrightarrow> validateRule E v r = Some err"
    by (auto simp: validateRule_def validateMinLength_def validateMaxLength_def)
  have 5: "\<forall>s. rule_Type r = ''pattern'' \<and> v = VString s \<and> (\<forall>p. rule_Value r \<noteq> VString p)
      \<longrightarrow> validateRule E v r = Some PatternNotString"
    by (cases "rule_Value r") (auto simp: validateRule_def validatePattern_def)
  have 6: "\<forall>s p err. rule_Type r = ''pattern'' \<and> v = VString s \<and> rule_Value r = VString p
        \<and> regexp_Compile E p = Inl err
      \<longrightarrow> validateRule E v r = Some (BadRegexp err)"
    by (auto simp: validateRule_def validatePattern_def)
  from 1 2 3 4 5 6 show ?thesis by (intro conjI)
qed

text \<open>What a rule returns when it can be evaluated: nothing, or its message, or the default.\<close>

lemma validateRule_evaluated:
  "(\<forall>s. rule_Type r = ''email'' \<and> v = VString s \<longrightarrow>
       validateRule E v r =
         (if rx_match emailRegex s then None
          else Some (if rule_Message r \<noteq> [] then CustomMessage (rule_Message r) else InvalidEmail)))
   \<and> (\<forall>num mn. rule_Type r = ''min'' \<and> toFloat64 E v = Inr num
        \<and> toFloat64 E (rule_Value r) = Inr mn \<longrightarrow>
       validateRule E v r =
         (if float64_less E num mn
          then Some (if rule_Message r \<noteq> [] then CustomMessage (rule_Message r) else BelowMin mn)
          else None))
   \<and> (\<forall>num mx. rule_Type r = ''max'' \<and> toFloat64 E v = Inr num
        \<and> toFloat64 E (rule_Value r) = Inr mx \<longrightarrow>
       validateRule E v r =
         (if float64_less E mx num
          then Some (if rule_Message r \<noteq> [] then CustomMessage (rule_Message r) else AboveMax mx)
          else None))
   \<and> (\<forall>s n. rule_Type r = ''minLength'' \<and> v = VString s \<and> toInt E (rule_Value r) = Inr n \<longrightarrow>
       validateRule E v r =
         (if int (length s) < n
          then Some (if rule_Message r \<noteq> [] then CustomMessage (rule_Message r) else TooShort n)
          else None))
   \<and> (\<forall>s n. rule_Type r = ''maxLength'' \<and> v = VString s \<and> toInt E (rule_Value r) = Inr n \<longrightarrow>
       validateRule E v r =
         (if n < int (length s)
          then Some (if rule_Message r \<noteq> [] then CustomMessage (rule_Message r) else TooLong n)
          else None))
   \<and> (\<forall>s p regex. rule_Type r = ''pattern'' \<and> v = VString s \<and> rule_Value r = VString p
        \<and> regexp_Compile E p = Inr regex \<longrightarrow>
       validateRule E v r =
         (if regex s then None
          else Some (if rule_Message r \<noteq> [] then CustomMessage (rule_Message r)
                     else PatternMismatch)))"
proof -
  have 1: "\<forall>s. rule_Type r = ''email'' \<and> v = VString s \<longrightarrow>
       validateRule E v r =
         (if rx_match emailRegex s then None
          else Some (if rule_Message r \<noteq> [] then CustomMessage (rule_Message r) else InvalidEmail))"
    by (auto simp: validateRule_def validateEmail_def failure_def)
  have 2: "\<forall>num mn. rule_Type r = ''min'' \<and> toFloat64 E v = Inr num
        \<and> toFloat64 E (rule_Value r) = Inr mn \<longrightarrow>
       validateRule E v r =
         (if float64_less E num mn
          then Some (if rule_Message r \<noteq> [] then CustomMessage (rule_Message r) else BelowMin mn)
          else None)"
    by (auto simp: validateRule_def validateMin_def failure_def)
  have 3: "\<forall>num mx. rule_Type r = ''max'' \<and> toFloat64 E v = Inr num
        \<and> toFloat64 E (rule_Value r) = Inr mx \<longrightarrow>
       validateRule E v r =
         (if float64_less E mx num
          then Some (if rule_Message r \<noteq> [] then CustomMessage (rule_Message r) else AboveMax mx)
          else None)"
    by (auto simp: validateRule_def validateMax_def failure_def)
  have 4: "\<forall>s n. rule_Type r = ''minLength'' \<and> v = VString s \<and> toInt E (rule_Value r) = Inr n \<longrightarrow>
       validateRule E v r =
         (if int (length s) < n
          then Some (if rule_Message r \<noteq> [] then CustomMessage (rule_Message r) else TooShort n)
          else None)"
    by (auto simp: validateRule_def validateMinLength_def failure_def)
  have 5: "\<forall>s n. rule_Type r = ''maxLength'' \<and> v = VString s \<and> toInt E (rule_Value r) = Inr n \<longrightarrow>
       validateRule E v r =
         (if n < int (length s)
          then Some (if rule_Message r \<noteq> [] then CustomMessage (rule_Message r) else TooLong n)
          else None)"
    by (auto simp: validateRule_def validateMaxLength_def failure_def)
  have 6: "\<forall>s p regex. rule_Type r = ''pattern'' \<and> v = VString s \<and> rule_Value r = VString p
        \<and> regexp_Compile E p = Inr regex \<longrightarrow>
       validateRule E v r =
         (if regex s then None
          else Some (if rule_Message r \<noteq> [] then CustomMessage (rule_Message r)
                     else PatternMismatch))"
    by (auto simp: validateRule_def validatePattern_def failure_def)
  from 1 2 3 4 5 6 show ?thesis by (intro conjI)
qed

text \<open>
  Claim C6, amended. For every field and every non-empty value, \<^verbatim>\<open>ValidateField\<close>
  runs the rules in their declared order and returns the error of the first rule that
  returns one; it succeeds if and only if every rule passes. A rule that cannot be
  evaluated (the value is not a string for email, minLength, maxLength and pattern; the
  value or the parameter is not a number for min and max; the parameter is not an integer
  for the two lengths; the pattern is not a string or does not compile) returns that type
  or coercion error, whatever its custom message. A rule that can be evaluated passes when
  its constraint holds and else returns its custom message if it has one, and the default
  message of its kind if it has none. For the rules minLength 5, pattern
  \<^verbatim>\<open>^\d+$\<close> and the value \<^verbatim>\<open>ab\<close> the result is the failure of minLength.
\<close>

theorem ValidateField_first_failing_rule:
  assumes "\<not> isEmpty E v"
  shows "(ValidateField E field v = None \<longleftrightarrow> (\<forall>r\<in>set (Validation field). validateRule E v r = None))
    \<and> (\<forall>pre r post e.
          Validation field = pre @ r # post \<and> (\<forall>p\<in>set pre. validateRule E v p = None)
            \<and> validateRule E v r = Some e
          \<longrightarrow> ValidateField E field v = Some e)
    \<and> (\<forall>e. ValidateField E field v = Some e \<longrightarrow>
          (\<exists>pre r post. Validation field = pre @ r # post
             \<and> (\<forall>p\<in>set pre. validateRule E v p = None) \<and> validateRule E v r = Some e))
    \<and> (\<forall>r e. validateRule E v r = Some e \<longrightarrow>
          (rule_Message r \<noteq> [] \<and> e = CustomMessage (rule_Message r))
        \<or> (rule_Message r = [] \<and>
             (rule_Type r = ''email'' \<and> e = InvalidEmail
            \<or> rule_Type r = ''min'' \<and> (\<exists>b. toFloat64 E (rule_Value r) = Inr b \<and> e = BelowMin b)
            \<or> rule_Type r = ''max'' \<and> (\<exists>b. toFloat64 E (rule_Value r) = Inr b \<and> e = AboveMax b)
            \<or> rule_Type r = ''minLength'' \<and> (\<exists>n. toInt E (rule_Value r) = Inr n \<and> e = TooShort n)
            \<or> rule_Type r = ''maxLength'' \<and> (\<exists>n. toInt E (rule_Value r) = Inr n \<and> e = TooLong n)
            \<or> rule_Type r = ''pattern'' \<and> e = PatternMismatch))
        \<or> e = NotAString \<or> e = PatternNotString \<or> (\<exists>t. e = BadRegexp t)
        \<or> (\<exists>t. e = StrconvError t) \<or> (\<exists>u. e = NoFloatConversion u)
        \<or> (\<exists>u. e = NoIntConversion u))
    \<and> (\<forall>r.
         (rule_Type r \<in> {''email'', ''minLength'', ''maxLength'', ''pattern''} \<and> (\<forall>s. v \<noteq> VString s)
            \<longrightarrow> validateRule E v r = Some NotAString)
       \<and> (\<forall>err. rule_Type r \<in> {''min'', ''max''} \<and> toFloat64 E v = Inl err
            \<longrightarrow> validateRule E v r = Some err)
       \<and> (\<forall>num err. rule_Type r \<in> {''min'', ''max''} \<and> toFloat64 E v = Inr num
              \<and> toFloat64 E (rule_Value r) = Inl err
            \<longrightarrow> validateRule E v r = Some err)
       \<and> (\<forall>s err. rule_Type r \<in> {''minLength'', ''maxLength''} \<and> v = VString s
              \<and> toInt E (rule_Value r) = Inl err
            \<longrightarrow> validateRule E v r = Some err)
       \<and> (\<forall>s. rule_Type r = ''pattern'' \<and> v = VString s \<and> (\<forall>p. rule_Value r \<noteq> VString p)
            \<longrightarrow> validateRule E v r = Some PatternNotString)
       \<and> (\<forall>s p err. rule_Type r = ''pattern'' \<and> v = VString s \<and> rule_Value r = VString p
              \<and> regexp_Compile E p = Inl err
            \<longrightarrow> validateRule E v r = Some (BadRegexp err)))
    \<and> (\<forall>r.
         (\<forall>s. rule_Type r = ''email'' \<and> v = VString s \<longrightarrow>
            validateRule E v r =
              (if rx_match emailRegex s then None
               else Some (if rule_Message r \<noteq> [] then CustomMessage (rule_Message r)
                          else InvalidEmail)))
       \<and> (\<forall>num mn. rule_Type r = ''min'' \<and> toFloat64 E v = Inr num
              \<and> toFloat64 E (rule_Value r) = Inr mn \<longrightarrow>
            validateRule E v r =
              (if float64_less E num mn
               then Some (if rule_Message r \<noteq> [] then CustomMessage (rule_Message r)
                          else BelowMin mn)
               else None))
       \<and> (\<forall>num mx. rule_Type r = ''max'' \<and> toFloat64 E v = Inr num
              \<and> toFloat64 E (rule_Value r) = Inr mx \<longrightarrow>
            validateRule E v r =
              (if float64_less E mx num
               then Some (if rule_Message r \<noteq> [] then CustomMessage (rule_Message r)
                          else AboveMax mx)
               else None))
       \<and> (\<forall>s n. rule_Type r = ''minLength'' \<and> v = VString s
              \<and> toInt E (rule_Value r) = Inr n \<longrightarrow>
            validateRule E v r =
              (if int (length s) < n
               then Some (if rule_Message r \<noteq> [] then CustomMessage (rule_Message r)
                          else TooShort n)
               else None))
       \<and> (\<forall>s n. rule_Type r = ''maxLength'' \<and> v = VString s
              \<and> toInt E (rule_Value r) = Inr n \<longrightarrow>
            validateRule E v r =
              (if n < int (length s)
               then Some (if rule_Message r \<noteq> [] then CustomMessage (rule_Message r)
                          else TooLong n)
               else None))
       \<and> (\<forall>s p regex. rule_Type r = ''pattern'' \<and> v = VString s \<and> rule_Value r = VString p
              \<and> regexp_Compile E p = Inr regex \<longrightarrow>
            validateRule E v r =
              (if regex s then None
               else Some (if rule_Message r \<noteq> [] then CustomMessage (rule_Message r)
                          else PatternMismatch))))
    \<and> (v = VString ''ab'' \<longrightarrow>
          ValidateField E
            (zero_Field\<lparr>Validation :=
               [\<lparr>rule_Type = ''minLength'', rule_Value = VInt 5, rule_Message = []\<rparr>,
                \<lparr>rule_Type = ''pattern'', rule_Value = VString digits_pattern, rule_Message = []\<rparr>]\<rparr>)
            v = Some (TooShort 5))"
proof -
  from assms have run: "ValidateField E f v = applyRules E v (Validation f)" for f
    by (simp add: ValidateField_def)
  have a: "ValidateField E field v = None \<longleftrightarrow> (\<forall>r\<in>set (Validation field). validateRule E v r = None)"
    by (simp add: run applyRules_None_iff)
  have b: "\<forall>pre r post e.
          Validation field = pre @ r # post \<and> (\<forall>p\<in>set pre. validateRule E v p = None)
            \<and> validateRule E v r = Some e
          \<longrightarrow> ValidateField E field v = Some e"
    by (simp add: run applyRules_first_error)
  have c: "\<forall>e. ValidateField E field v = Some e \<longrightarrow>
          (\<exists>pre r post. Validation field = pre @ r # post
             \<and> (\<forall>p\<in>set pre. validateRule E v p = None) \<and> validateRule E v r = Some e)"
    using applyRules_Some_split [of E v "Validation field"] by (simp add: run)
  have d: "v = VString ''ab'' \<longrightarrow>
          ValidateField E
            (zero_Field\<lparr>Validation :=
               [\<lparr>rule_Type = ''minLength'', rule_Value = VInt 5, rule_Message = []\<rparr>,
                \<lparr>rule_Type = ''pattern'', rule_Value = VString digits_pattern, rule_Message = []\<rparr>]\<rparr>)
            v = Some (TooShort 5)"
  proof
    assume eq: "v = VString ''ab''"
    show "ValidateField E
            (zero_Field\<lparr>Validation :=
               [\<lparr>rule_Type = ''minLength'', rule_Value = VInt 5, rule_Message = []\<rparr>,
                \<lparr>rule_Type = ''pattern'', rule_Value = VString digits_pattern, rule_Message = []\<rparr>]\<rparr>)
            v = Some (TooShort 5)"
      unfolding run by (simp add: eq validateRule_def validateMinLength_def failure_def)
  qed
  have e: "\<forall>r e. validateRule E v r = Some e \<longrightarrow>
          (rule_Message r \<noteq> [] \<and> e = CustomMessage (rule_Message r))
        \<or> (rule_Message r = [] \<and>
             (rule_Type r = ''email'' \<and> e = InvalidEmail
            \<or> rule_Type r = ''min'' \<and> (\<exists>b. toFloat64 E (rule_Value r) = Inr b \<and> e = BelowMin b)
            \<or> rule_Type r = ''max'' \<and> (\<exists>b. toFloat64 E (rule_Value r) = Inr b \<and> e = AboveMax b)
            \<or> rule_Type r = ''minLength'' \<and> (\<exists>n. toInt E (rule_Value r) = Inr n \<and> e = TooShort n)
            \<or> rule_Type r = ''maxLength'' \<and> (\<exists>n. toInt E (rule_Value r) = Inr n \<and> e = TooLong n)
            \<or> rule_Type r = ''pattern'' \<and> e = PatternMismatch))
        \<or> e = NotAString \<or> e = PatternNotString \<or> (\<exists>t. e = BadRegexp t)
        \<or> (\<exists>t. e = StrconvError t) \<or> (\<exists>u. e = NoFloatConversion u)
        \<or> (\<exists>u. e = NoIntConversion u)"
    using validateRule_error [of E v] by blast
  note u = allI [of "\<lambda>r. _ r", OF validateRule_cannot_evaluate [of _ v E]]
  note w = allI [of "\<lambda>r. _ r", OF validateRule_evaluated [of _ v E]]
  from a b c e u w d show ?thesis by (intro conjI)
qed

theorem ValidateField_first_failing_rule_witness:
  "\<not> isEmpty rt_ascii (VString ''ab'')
   \<and> validateRule rt_ascii (VString ''ab'')
       \<lparr>rule_Type = ''minLength'', rule_Value = VInt 5, rule_Message = []\<rparr> = Some (TooShort 5)
   \<and> validateRule rt_ascii (VString ''ab'')
       \<lparr>rule_Type = ''pattern'', rule_Value = VString digits_pattern, rule_Message = []\<rparr>
       = Some PatternMismatch
   \<and> ValidateField rt_ascii
       (zero_Field\<lparr>Validation :=
          [\<lparr>rule_Type = ''minLength'', rule_Value = VInt 5, rule_Message = []\<rparr>,
           \<lparr>rule_Type = ''pattern'', rule_Value = VString digits_pattern, rule_Message = []\<rparr>]\<rparr>)
       (VString ''ab'') = Some (TooShort 5)"
proof -
  have ne: "\<not> isEmpty rt_ascii (VString ''ab'')"
    by (simp add: rt_ascii_simps)
  have r1: "validateRule rt_ascii (VString ''ab'')
       \<lparr>rule_Type = ''minLength'', rule_Value = VInt 5, rule_Message = []\<rparr> = Some (TooShort 5)"
    by (simp add: validateRule_def validateMinLength_def failure_def)
  have r2: "validateRule rt_ascii (VString ''ab'')
       \<lparr>rule_Type = ''pattern'', rule_Value = VString digits_pattern, rule_Message = []\<rparr>
       = Some PatternMismatch"
    by (simp add: validateRule_def validatePattern_def failure_def rt_ascii_def rx_plus_def rx_digits_def)
  have "ValidateField rt_ascii
       (zero_Field\<lparr>Validation :=
          [\<lparr>rule_Type = ''minLength'', rule_Value = VInt 5, rule_Message = []\<rparr>,
           \<lparr>rule_Type = ''pattern'', rule_Value = VString digits_pattern, rule_Message = []\<rparr>]\<rparr>)
       (VString ''ab'') = Some (TooShort 5)"
    using ValidateField_first_failing_rule [OF ne, of zero_Field,
          THEN conjunct2, THEN conjunct2, THEN conjunct2, THEN conjunct2, THEN conjunct2,
          THEN conjunct2]
    by simp
  with ne r1 r2 show ?thesis by simp
qed

text \<open>
  Claim C6 as stated fails where a rule cannot be evaluated: the rule minLength 5 with the
  custom message \<^verbatim>\<open>too short\<close> does not pass on the integer 42, and the result is
  "the value must be a string", not the custom message.
\<close>

theorem ValidateField_custom_message_counterexample:
  "\<not> isEmpty rt_ascii (VInt 42)
   \<and> ValidateField rt_ascii
       (zero_Field\<lparr>Validation :=
          [\<lparr>rule_Type = ''minLength'', rule_Value = VInt 5, rule_Message = ''too short''\<rparr>]\<rparr>)
       (VInt 42) = Some NotAString
   \<and> ValidateField rt_ascii
       (zero_Field\<lparr>Validation :=
          [\<lparr>rule_Type = ''minLength'', rule_Value = VInt 5, rule_Message = ''too short''\<rparr>]\<rparr>)
       (VInt 42) \<noteq> Some (CustomMessage ''too short'')"
  by (simp add: ValidateField_def zero_Field_def validateRule_def validateMinLength_def)

section \<open>The two rule evaluators\<close>

text \<open>
  Claim C10. For every value (empty or not) and every rule whose kind is none of email,
  min, max, minLength, maxLength and pattern, both rule evaluators return \<^verbatim>\<open>nil\<close>:
  a rule of an unknown or misspelled kind is ignored.
\<close>

theorem unknown_kind_accepted:
  assumes "rule_Type rule \<notin> {''email'', ''min'', ''max'', ''minLength'', ''maxLength'', ''pattern''}"
  shows "validateRule E v rule = None \<and> router_validateRule E v rule = None"
  using assms by (simp add: validateRule_def router_validateRule_def)

theorem unknown_kind_accepted_witness:
  "validateRule rt_ascii (VString ''x'') \<lparr>rule_Type = ''minLenght'', rule_Value = VInt 5, rule_Message = []\<rparr> = None
   \<and> router_validateRule rt_ascii (VString ''x'') \<lparr>rule_Type = ''minLenght'', rule_Value = VInt 5, rule_Message = []\<rparr> = None
   \<and> validateRule rt_ascii (VString ''x'') \<lparr>rule_Type = ''minLength'', rule_Value = VInt 5, rule_Message = []\<rparr> = Some (TooShort 5)"
proof -
  have r: "validateRule rt_ascii (VString ''x'')
        \<lparr>rule_Type = ''minLength'', rule_Value = VInt 5, rule_Message = []\<rparr> = Some (TooShort 5)"
    by (simp add: validateRule_def validateMinLength_def failure_def)
  show ?thesis
    using unknown_kind_accepted [where E = rt_ascii and v = "VString ''x''"
        and rule = "\<lparr>rule_Type = ''minLenght'', rule_Value = VInt 5, rule_Message = []\<rparr>"] r
    by simp
qed


lemma emailRegex_accepts: "rx_match emailRegex ''ab@example.com''"
  by (simp add: emailRegex_def rx_plus_def rx_letters_def rx_digits_def)

lemma emailRegex_rejects: "\<not> rx_match emailRegex ''a@b.''"
  by (simp add: emailRegex_def rx_plus_def rx_letters_def rx_digits_def)

text \<open>
  Claim C1 asks the two rule evaluators to agree on every value and rule. They do not:
  the evaluator of form/utils.go rejects the string \<^verbatim>\<open>a@b.\<close> under an email rule, by
  its regular expression, where the router's accepts it, since it holds an at sign and a
  dot; and the router's evaluator has no case for \<^verbatim>\<open>pattern\<close>, so it accepts
  \<^verbatim>\<open>abc\<close> under the pattern \<^verbatim>\<open>^\d+$\<close>, which the other rejects.
\<close>

theorem validateRule_divergence:
  "validateRule E (VString ''a@b.'') \<lparr>rule_Type = ''email'', rule_Value = VNil, rule_Message = []\<rparr>
     = Some InvalidEmail
   \<and> router_validateRule E (VString ''a@b.'') \<lparr>rule_Type = ''email'', rule_Value = VNil, rule_Message = []\<rparr>
     = None
   \<and> validateRule rt_ascii (VString ''abc'')
        \<lparr>rule_Type = ''pattern'', rule_Value = VString digits_pattern, rule_Message = []\<rparr>
     = Some PatternMismatch
   \<and> router_validateRule rt_ascii (VString ''abc'')
        \<lparr>rule_Type = ''pattern'', rule_Value = VString digits_pattern, rule_Message = []\<rparr>
     = None"
proof -
  have 1: "validateRule E (VString ''a@b.'') \<lparr>rule_Type = ''email'', rule_Value = VNil, rule_Message = []\<rparr>
     = Some InvalidEmail"
    by (simp add: validateRule_def validateEmail_def failure_def emailRegex_rejects del: rx_match.simps)
  have 2: "router_validateRule E (VString ''a@b.'') \<lparr>rule_Type = ''email'', rule_Value = VNil, rule_Message = []\<rparr>
     = None"
    by (simp add: router_validateRule_def router_validateEmail_def)
  have 3: "validateRule rt_ascii (VString ''abc'')
        \<lparr>rule_Type = ''pattern'', rule_Value = VString digits_pattern, rule_Message = []\<rparr>
     = Some PatternMismatch"
    by (simp add: validateRule_def validatePattern_def failure_def rt_ascii_def rx_plus_def rx_digits_def)
  have 4: "router_validateRule rt_ascii (VString ''abc'')
        \<lparr>rule_Type = ''pattern'', rule_Value = VString digits_pattern, rule_Message = []\<rparr>
     = None"
    by (simp add: router_validateRule_def)
  from 1 2 3 4 show ?thesis by simp
qed

text \<open>On every other kind of rule the two evaluators return the same result.\<close>

lemma router_isEmpty_eq: "router_isEmpty E v = isEmpty E v"
  by (cases v) simp_all

lemma router_toFloat64_eq: "router_toFloat64 E v = toFloat64 E v"
  by (cases v) simp_all

lemma router_toInt_eq: "router_toInt E v = toInt E v"
  by (cases v) simp_all

lemma router_validateMin_eq: "router_validateMin E v p m = validateMin E v p m"
  unfolding router_validateMin_def validateMin_def router_toFloat64_eq by (rule refl)

lemma router_validateMax_eq: "router_validateMax E v p m = validateMax E v p m"
  unfolding router_validateMax_def validateMax_def router_toFloat64_eq by (rule refl)

lemma router_validateMinLength_eq: "router_validateMinLength E v p m = validateMinLength E v p m"
  unfolding router_validateMinLength_def validateMinLength_def router_toInt_eq by (rule refl)

lemma router_validateMaxLength_eq: "router_validateMaxLength E v p m = validateMaxLength E v p m"
  unfolding router_validateMaxLength_def validateMaxLength_def router_toInt_eq by (rule refl)

lemma router_validateRule_eq:
  assumes "rule_Type rule \<noteq> ''email''" and "rule_Type rule \<noteq> ''pattern''"
  shows "router_validateRule E v rule = validateRule E v rule"
  using assms
  by (simp add: router_validateRule_def validateRule_def router_validateMin_eq
      router_validateMax_eq router_validateMinLength_eq router_validateMaxLength_eq)

section \<open>Properties of the registry and of the admin panel\<close>

lemma dom_handleFormsList: "dom (handleFormsList r) = dom (router_forms r)"
  by (auto simp: handleFormsList_def dom_def)

lemma router_forms_RegisterForm:
  "router_forms (RegisterForm r f) = (router_forms r)(form_Name f \<mapsto> f)"
  by (simp add: RegisterForm_def)

lemma dom_foldl_RegisterForm:
  "dom (router_forms (foldl RegisterForm r fs)) = dom (router_forms r) \<union> set (map form_Name fs)"
  by (induction fs arbitrary: r) (auto simp: router_forms_RegisterForm)

text \<open>
  Claim C8. For every registry and every two forms of the same name, registered one after
  the other: the lookup by that name finds the second form, the registry is the one that
  registering the second form alone gives, the listing gives the second form's title under
  the name and has the name once (its keys are the former keys and the name); and a
  listing of forms registered one by one into a new registry, the last two under one name,
  has as many entries as there are distinct names.
\<close>

theorem RegisterForm_same_name:
  assumes "form_Name f1 = form_Name f2"
  shows "handleFormGet (RegisterForm (RegisterForm r f1) f2) (form_Name f1) = Some f2
    \<and> RegisterForm (RegisterForm r f1) f2 = RegisterForm r f2
    \<and> handleFormsList (RegisterForm (RegisterForm r f1) f2) (form_Name f1) = Some (form_Title f2)
    \<and> dom (handleFormsList (RegisterForm (RegisterForm r f1) f2))
         = insert (form_Name f1) (dom (handleFormsList r))
    \<and> card (dom (handleFormsList (foldl RegisterForm NewRouter (fs @ [f1, f2]))))
         = card (set (map form_Name (fs @ [f1])))"
proof -
  have 1: "handleFormGet (RegisterForm (RegisterForm r f1) f2) (form_Name f1) = Some f2"
    using assms by (simp add: handleFormGet_def RegisterForm_def)
  have 2: "RegisterForm (RegisterForm r f1) f2 = RegisterForm r f2"
    using assms by (simp add: RegisterForm_def)
  have 3: "handleFormsList (RegisterForm (RegisterForm r f1) f2) (form_Name f1) = Some (form_Title f2)"
    using assms by (simp add: handleFormsList_def RegisterForm_def)
  have 4: "dom (handleFormsList (RegisterForm (RegisterForm r f1) f2))
         = insert (form_Name f1) (dom (handleFormsList r))"
    using assms by (simp add: dom_handleFormsList router_forms_RegisterForm)
  have 5: "card (dom (handleFormsList (foldl RegisterForm NewRouter (fs @ [f1, f2]))))
         = card (set (map form_Name (fs @ [f1])))"
  proof -
    have "dom (handleFormsList (foldl RegisterForm NewRouter (fs @ [f1, f2])))
        = set (map form_Name (fs @ [f1, f2]))"
      by (simp only: dom_handleFormsList dom_foldl_RegisterForm) (simp add: NewRouter_def)
    also have "\<dots> = set (map form_Name (fs @ [f1]))"
      using assms by auto
    finally show ?thesis by simp
  qed
  from 1 2 3 4 5 show ?thesis by simp
qed

theorem RegisterForm_same_name_witness:
  "handleFormGet (RegisterForm (RegisterForm NewRouter (NewForm ''users'' ''Old'')) (NewForm ''users'' ''New''))
      ''users'' = Some (NewForm ''users'' ''New'' :: int Form)
   \<and> handleFormsList (RegisterForm (RegisterForm NewRouter (NewForm ''users'' ''Old'' :: int Form))
        (NewForm ''users'' ''New'')) ''users'' = Some ''New''
   \<and> card (dom (handleFormsList (foldl RegisterForm NewRouter
        ([] @ [NewForm ''users'' ''Old'' :: int Form, NewForm ''users'' ''New'']))))
      = 1"
proof -
  let ?old = "NewForm ''users'' ''Old'' :: int Form"
  let ?new = "NewForm ''users'' ''New'' :: int Form"
  have n: "form_Name ?old = form_Name ?new" by (simp add: NewForm_def)
  note t = RegisterForm_same_name [OF n, of NewRouter "[]"]
  have nm: "form_Name ?old = ''users''" and tt: "form_Title ?new = ''New''"
    by (simp_all add: NewForm_def)
  from t have a: "handleFormGet (RegisterForm (RegisterForm NewRouter ?old) ?new) ''users'' = Some ?new"
    unfolding nm by blast
  from t have b: "handleFormsList (RegisterForm (RegisterForm NewRouter ?old) ?new) ''users'' = Some ''New''"
    unfolding nm tt by blast
  from t have "card (dom (handleFormsList (foldl RegisterForm NewRouter ([] @ [?old, ?new]))))
      = card (set (map form_Name ([] @ [?old])))"
    by blast
  then have c: "card (dom (handleFormsList (foldl RegisterForm NewRouter ([] @ [?old, ?new])))) = 1"
    by simp
  from a b c show ?thesis by blast
qed

text \<open>
  Claim C9. For every form, every page and every admin, with no store or with any store,
  whatever its \<^verbatim>\<open>SaveRoute\<close> returns (an error included): after
  \<^verbatim>\<open>Admin.RegisterForm\<close> the router of the admin is the router with the form
  registered, and the form is found under its name; likewise for
  \<^verbatim>\<open>Admin.RegisterPage\<close>. Both return the admin, with no error to surface.
\<close>

theorem Admin_register_ignores_storage:
  "admin_router (Admin_RegisterForm a form) = RegisterForm (admin_router a) form
   \<and> handleFormGet (admin_router (Admin_RegisterForm a form)) (form_Name form) = Some form
   \<and> admin_router (Admin_RegisterPage a page) = RegisterPage (admin_router a) page
   \<and> router_pages (admin_router (Admin_RegisterPage a page)) (page_Name page) = Some page"
  by (simp add: Admin_RegisterForm_def Admin_RegisterPage_def Let_def handleFormGet_def
      RegisterForm_def RegisterPage_def split: option.splits prod.splits)

theorem Admin_register_ignores_storage_witness:
  "SaveRoute \<lparr> SaveRoute = (\<lambda>route n. (Some ''connection refused'', Suc n)), storage_state = 0 \<rparr>
       \<lparr> route_ID = [], route_Name = ''users'', route_Path = ''/admin/forms/users'',
         route_Title = ''Users'', route_Description = [], route_Icon = [], route_Type = ''form'' \<rparr> 0
     = (Some ''connection refused'', Suc 0)
   \<and> admin_router (Admin_RegisterForm
        \<lparr> admin_router = NewRouter,
          admin_storage = Some \<lparr> SaveRoute = (\<lambda>route n. (Some ''connection refused'', Suc n)),
                                 storage_state = 0 \<rparr> \<rparr>
        (NewForm ''users'' ''Users'' :: int Form))
     = RegisterForm NewRouter (NewForm ''users'' ''Users'')
   \<and> handleFormGet (admin_router (Admin_RegisterForm
        \<lparr> admin_router = NewRouter,
          admin_storage = Some \<lparr> SaveRoute = (\<lambda>route n. (Some ''connection refused'', Suc n)),
                                 storage_state = 0 \<rparr> \<rparr>
        (NewForm ''users'' ''Users'' :: int Form))) ''users''
     = Some (NewForm ''users'' ''Users'')"
  using Admin_register_ignores_storage [where a = "\<lparr> admin_router = NewRouter,
          admin_storage = Some \<lparr> SaveRoute = (\<lambda>route n. (Some ''connection refused'', Suc n)),
                                 storage_state = (0::nat) \<rparr> \<rparr>"
      and form = "NewForm ''users'' ''Users'' :: int Form"]
  by (simp add: NewForm_def handleFormGet_def RegisterForm_def)

section \<open>Properties of the struct mapper\<close>

lemma strings_Contains_nonempty: "strings_Contains s sub \<Longrightarrow> sub \<noteq> [] \<Longrightarrow> s \<noteq> []"
  by (cases s) auto

lemma FromStruct_loop_Fields:
  "Fields (FromStruct_loop E members fb) =
     Fields fb @ filter (\<lambda>f. Name f \<noteq> [])
       (map (createFieldFromStructField E) (filter sf_IsExported members))"
  by (induction members arbitrary: fb) (auto simp: Let_def AddField_def)

text \<open>
  Claim C7. For every string member of a struct that carries none of the tags form, label,
  type and required and whose lower-cased name contains \<^verbatim>\<open>email\<close>, the mapper builds
  the field named by the lower-cased member name, labelled by the member name, of type
  email, not required, whose only validation rule is the default email rule; when the
  member is exported, this field is among the fields of the form \<^verbatim>\<open>FromStruct\<close> builds.
  For example the member \<^verbatim>\<open>UserEmail\<close> is mapped to the field \<^verbatim>\<open>useremail\<close>.
\<close>

theorem email_member_mapped:
  assumes "sf_Kind m = reflect_String"
    and "sf_Tag m ''form'' = []" and "sf_Tag m ''label'' = []"
    and "sf_Tag m ''type'' = []" and "sf_Tag m ''required'' = []"
    and "strings_Contains (strings_ToLower E (sf_Name m)) ''email''"
  shows "createFieldFromStructField E m =
           zero_Field\<lparr> Name := strings_ToLower E (sf_Name m), Label := sf_Name m,
                        Type := FieldTypeEmail,
                        Validation := [\<lparr> rule_Type = ''email'', rule_Value = VNil,
                                         rule_Message = msg_valid_email \<rparr>] \<rparr>
    \<and> (sf_IsExported m \<and> m \<in> set members \<longrightarrow>
         (\<exists>form. FromStruct E name title (Some (TypeStruct members)) = Some form
            \<and> createFieldFromStructField E m \<in> set (Fields form)))"
proof -
  have f: "createFieldFromStructField E m =
           zero_Field\<lparr> Name := strings_ToLower E (sf_Name m), Label := sf_Name m,
                        Type := FieldTypeEmail,
                        Validation := [\<lparr> rule_Type = ''email'', rule_Value = VNil,
                                         rule_Message = msg_valid_email \<rparr>] \<rparr>"
    using assms
    by (simp add: createFieldFromStructField_def getFieldName_def getFieldLabel_def
        getFieldType_def typeFromKind_def getFieldRequired_def Let_def zero_Field_def)
  from assms(6) have ne: "strings_ToLower E (sf_Name m) \<noteq> []"
    by (rule strings_Contains_nonempty) simp
  have "sf_IsExported m \<and> m \<in> set members \<longrightarrow>
         (\<exists>form. FromStruct E name title (Some (TypeStruct members)) = Some form
            \<and> createFieldFromStructField E m \<in> set (Fields form))"
  proof
    assume h: "sf_IsExported m \<and> m \<in> set members"
    have "Name (createFieldFromStructField E m) \<noteq> []" using ne by (simp add: f)
    with h have "createFieldFromStructField E m
        \<in> set (Fields (FromStruct_loop E members (NewForm name title)))"
      by (auto simp: FromStruct_loop_Fields)
    then show "\<exists>form. FromStruct E name title (Some (TypeStruct members)) = Some form
            \<and> createFieldFromStructField E m \<in> set (Fields form)"
      by (simp add: FromStruct_def)
  qed
  with f show ?thesis by blast
qed

theorem email_member_mapped_witness:
  "strings_Contains (strings_ToLower rt_ascii ''UserEmail'') ''email''
   \<and> createFieldFromStructField rt_ascii
        \<lparr> sf_Name = ''UserEmail'', sf_Kind = reflect_String, sf_Tag = (\<lambda>key. []),
          sf_IsExported = True \<rparr>
      = zero_Field\<lparr> Name := ''useremail'', Label := ''UserEmail'', Type := FieldTypeEmail,
                    Validation := [\<lparr> rule_Type = ''email'', rule_Value = VNil,
                                     rule_Message = msg_valid_email \<rparr>] \<rparr>
   \<and> (\<exists>form. FromStruct rt_ascii ''user'' ''User''
          (Some (TypeStruct [\<lparr> sf_Name = ''UserEmail'', sf_Kind = reflect_String,
                               sf_Tag = (\<lambda>key. []), sf_IsExported = True \<rparr>])) = Some form
        \<and> createFieldFromStructField rt_ascii
             \<lparr> sf_Name = ''UserEmail'', sf_Kind = reflect_String, sf_Tag = (\<lambda>key. []),
               sf_IsExported = True \<rparr> \<in> set (Fields form))"
proof -
  let ?m = "\<lparr> sf_Name = ''UserEmail'', sf_Kind = reflect_String, sf_Tag = (\<lambda>key. []),
              sf_IsExported = True \<rparr>"
  have low: "strings_ToLower rt_ascii ''UserEmail'' = ''useremail''"
    by (simp add: rt_ascii_simps)
  have c: "strings_Contains (strings_ToLower rt_ascii (sf_Name ?m)) ''email''"
    by (simp add: low)
  have p1: "sf_Kind ?m = reflect_String" and p2: "sf_Tag ?m ''form'' = []"
    and p3: "sf_Tag ?m ''label'' = []" and p4: "sf_Tag ?m ''type'' = []"
    and p5: "sf_Tag ?m ''required'' = []" and e: "sf_IsExported ?m \<and> ?m \<in> set [?m]"
    by simp_all
  note t = email_member_mapped [where members = "[?m]" and name = "''user''"
      and title = "''User''", OF p1 p2 p3 p4 p5 c]
  from t have a: "createFieldFromStructField rt_ascii ?m
      = zero_Field\<lparr> Name := ''useremail'', Label := ''UserEmail'', Type := FieldTypeEmail,
                    Validation := [\<lparr> rule_Type = ''email'', rule_Value = VNil,
                                     rule_Message = msg_valid_email \<rparr>] \<rparr>"
    by (simp add: low)
  from t e have b: "\<exists>form. FromStruct rt_ascii ''user'' ''User'' (Some (TypeStruct [?m])) = Some form
        \<and> createFieldFromStructField rt_ascii ?m \<in> set (Fields form)"
    by blast
  from c have c': "strings_Contains (strings_ToLower rt_ascii ''UserEmail'') ''email''"
    by simp
  from a b c' show ?thesis by blast
qed

section \<open>Properties of the UI schema\<close>

lemma widgetOfType_options:
  "widgetOfType field ''ui:options'' = None
   \<or> (\<exists>d. widgetOfType field ''ui:options'' = Some (VMap d))"
  by (simp add: widgetOfType_def Let_def split: option.splits)

lemma widgetOfType_Config [simp]: "widgetOfType (field\<lparr>Config := c\<rparr>) = widgetOfType field"
  by (simp add: widgetOfType_def cong: if_cong)

lemma generateFieldUISchema_options_no_config:
  "generateFieldUISchema (field\<lparr>Config := Map.empty\<rparr>) ''ui:options''
     = widgetOfType field ''ui:options''"
  by (simp add: generateFieldUISchema_def mergeConfig_def Let_def)

lemma generateFieldUISchema_options:
  assumes "Config field \<noteq> Map.empty"
  shows "generateFieldUISchema field ''ui:options'' =
     Some (VMap ((case widgetOfType field ''ui:options'' of Some (VMap d) \<Rightarrow> d | _ \<Rightarrow> Map.empty)
                   ++ Config field))"
  using assms widgetOfType_options [of field]
  by (auto simp: generateFieldUISchema_def mergeConfig_def Let_def)

text \<open>
  Claim C2, amended. For every field whose config is not empty, the UI schema of the field
  has an options map, and each of its entries is the config's value where the config has
  the key, and else the option the projector derived (the one the field has with an empty
  config): every config key is added, and a config key that is also a derived option
  replaces it.
\<close>

theorem config_merged_into_options:
  assumes "Config field \<noteq> Map.empty"
  shows "(\<exists>optionsMap. generateFieldUISchema field ''ui:options'' = Some (VMap optionsMap))
    \<and> (\<forall>k. uiOption (generateFieldUISchema field) k =
          (case Config field k of
             Some v \<Rightarrow> Some v
           | None \<Rightarrow> uiOption (generateFieldUISchema (field\<lparr>Config := Map.empty\<rparr>)) k))"
proof -
  note g = generateFieldUISchema_options [OF assms]
  have "uiOption (generateFieldUISchema field) k =
          (case Config field k of
             Some v \<Rightarrow> Some v
           | None \<Rightarrow> uiOption (generateFieldUISchema (field\<lparr>Config := Map.empty\<rparr>)) k)" for k
    using widgetOfType_options [of field]
    by (auto simp: uiOption_def g generateFieldUISchema_options_no_config map_add_def
        split: option.splits)
  with g show ?thesis by simp
qed

theorem config_merged_into_options_witness:
  "uiOption (generateFieldUISchema
      (zero_Field\<lparr>Type := FieldTypeTextarea, Config := [''cols'' \<mapsto> VInt 80]\<rparr> :: int Field)) ''cols''
     = Some (VInt 80)
   \<and> uiOption (generateFieldUISchema
      (zero_Field\<lparr>Type := FieldTypeTextarea, Config := [''cols'' \<mapsto> VInt 80]\<rparr> :: int Field)) ''rows''
     = Some (VInt 4)
   \<and> uiOption (generateFieldUISchema
      (zero_Field\<lparr>Type := FieldTypeFile, Config := [''accept'' \<mapsto> VString ''image/*'']\<rparr> :: int Field))
      ''accept''
     = Some (VString ''image/*'')"
proof -
  let ?f = "zero_Field\<lparr>Type := FieldTypeTextarea, Config := [''cols'' \<mapsto> VInt 80]\<rparr> :: int Field"
  let ?g = "zero_Field\<lparr>Type := FieldTypeFile, Config := [''accept'' \<mapsto> VString ''image/*'']\<rparr> :: int Field"
  have nf: "Config ?f \<noteq> Map.empty" and ng: "Config ?g \<noteq> Map.empty"
    by (auto simp: fun_eq_iff)
  have r: "uiOption (generateFieldUISchema (?f\<lparr>Config := Map.empty\<rparr>)) ''rows'' = Some (VInt 4)"
    by (simp add: uiOption_def generateFieldUISchema_def mergeConfig_def widgetOfType_def
        zero_Field_def Let_def)
  from config_merged_into_options [OF nf] have
    "uiOption (generateFieldUISchema ?f) ''cols'' = Some (VInt 80)"
    "uiOption (generateFieldUISchema ?f) ''rows''
       = uiOption (generateFieldUISchema (?f\<lparr>Config := Map.empty\<rparr>)) ''rows''"
    by simp_all
  moreover from config_merged_into_options [OF ng] have
    "uiOption (generateFieldUISchema ?g) ''accept'' = Some (VString ''image/*'')"
    by simp
  ultimately show ?thesis using r by simp
qed

text \<open>
  Claim C2 as stated fails: the projector derives \<^verbatim>\<open>rows = 4\<close> for a textarea, and a
  config with \<^verbatim>\<open>rows = 10\<close> overwrites it.
\<close>

theorem config_overwrites_option_counterexample:
  "uiOption (generateFieldUISchema
      (zero_Field\<lparr>Type := FieldTypeTextarea\<rparr> :: int Field)) ''rows'' = Some (VInt 4)
   \<and> uiOption (generateFieldUISchema
      (zero_Field\<lparr>Type := FieldTypeTextarea, Config := [''rows'' \<mapsto> VInt 10]\<rparr> :: int Field)) ''rows''
     = Some (VInt 10)"
proof -
  have "Config (zero_Field\<lparr>Type := FieldTypeTextarea, Config := [''rows'' \<mapsto> VInt 10]\<rparr> :: int Field)
      \<noteq> Map.empty"
    by (auto simp: fun_eq_iff)
  then show ?thesis
    by (simp add: uiOption_def generateFieldUISchema_def mergeConfig_def widgetOfType_def
        zero_Field_def Let_def)
qed

section \<open>Properties of the presentation schema\<close>

lemma foldl_upd_dom:
  "dom (foldl (\<lambda>m f. m(k f \<mapsto> v f)) m fs) = dom m \<union> k ` set fs"
  by (induction fs arbitrary: m) (auto simp del: fun_upd_apply)

lemma generateFieldSchema_Inr:
  "generateFieldSchema E field = Inr (projr (generateFieldSchema E field))"
  by (simp add: generateFieldSchema_def Let_def)

lemma GenerateJSONSchema_loop_eq:
  "GenerateJSONSchema_loop E fs schema =
     Inr (schema
       \<lparr> js_Properties :=
           foldl (\<lambda>m f. m(Name f \<mapsto> VMap (projr (generateFieldSchema E f))))
             (js_Properties schema) (filter (\<lambda>f. Type f \<noteq> FieldTypeHidden) fs),
         js_Required :=
           js_Required schema @ map Name (filter (\<lambda>f. Type f \<noteq> FieldTypeHidden \<and> Required f) fs) \<rparr>)"
proof (induction fs arbitrary: schema)
  case Nil
  then show ?case by simp
next
  case (Cons a fs)
  show ?case
  proof (cases "Type a = FieldTypeHidden")
    case True
    with Cons.IH [of schema] show ?thesis by simp
  next
    case False
    have g: "generateFieldSchema E a = Inr (projr (generateFieldSchema E a))"
      by (rule generateFieldSchema_Inr)
    show ?thesis
      using False
      by (subst GenerateJSONSchema_loop.simps, subst g)
        (simp add: Cons.IH Let_def del: fun_upd_apply)
  qed
qed

lemma GenerateJSONSchema_eq:
  "\<exists>schema. GenerateJSONSchema E form = Inr schema
     \<and> js_Properties schema =
         foldl (\<lambda>m f. m(Name f \<mapsto> VMap (projr (generateFieldSchema E f)))) Map.empty
           (filter (\<lambda>f. Type f \<noteq> FieldTypeHidden) (Fields form))
     \<and> js_Required schema =
         map Name (filter (\<lambda>f. Type f \<noteq> FieldTypeHidden \<and> Required f) (Fields form))"
  by (simp add: GenerateJSONSchema_def GenerateJSONSchema_loop_eq)

lemma uiOrder_eq:
  "uiOrder fs order = order @ map Name (filter (\<lambda>f. Type f \<noteq> FieldTypeHidden) fs)"
  by (induction fs arbitrary: order) auto

lemma uiFields_VStrings:
  "uiFields fs uiSchema k = Some (VStrings xs) \<Longrightarrow> uiSchema k = Some (VStrings xs)"
proof (induction fs arbitrary: uiSchema)
  case Nil
  then show ?case by simp
next
  case (Cons a fs)
  show ?case
  proof (cases "generateFieldUISchema a \<noteq> Map.empty")
    case True
    with Cons.prems have "uiFields fs (uiSchema(Name a \<mapsto> VMap (generateFieldUISchema a))) k
        = Some (VStrings xs)"
      by (simp add: Let_def del: fun_upd_apply)
    from Cons.IH [OF this] show ?thesis by (simp split: if_splits)
  next
    case False
    with Cons.prems have "uiFields fs uiSchema k = Some (VStrings xs)"
      by (simp add: Let_def)
    from Cons.IH [OF this] show ?thesis .
  qed
qed

lemma uiFields_other:
  "k \<notin> Name ` set fs \<Longrightarrow> uiFields fs uiSchema k = uiSchema k"
  by (induction fs arbitrary: uiSchema) (auto simp: Let_def)

lemma GenerateUISchema_order:
  "GenerateUISchema form ''ui:order'' = Some (VStrings order)
    \<Longrightarrow> order = map Name (filter (\<lambda>f. Type f \<noteq> FieldTypeHidden) (Fields form))"
proof -
  assume a: "GenerateUISchema form ''ui:order'' = Some (VStrings order)"
  then have "uiFields (Fields form) [''ui:order'' \<mapsto> VStrings (uiOrder (Fields form) [])] ''ui:order''
      = Some (VStrings order)"
    by (simp add: GenerateUISchema_def Let_def split: if_splits)
  from uiFields_VStrings [OF this] show ?thesis by (simp add: uiOrder_eq)
qed

lemma GenerateUISchema_order_present:
  "''ui:order'' \<notin> Name ` set (Fields form)
    \<Longrightarrow> GenerateUISchema form ''ui:order''
          = Some (VStrings (map Name (filter (\<lambda>f. Type f \<noteq> FieldTypeHidden) (Fields form))))"
  by (simp add: GenerateUISchema_def Let_def uiFields_other uiOrder_eq)

text \<open>
  Claim C4. For every form, \<^verbatim>\<open>GenerateJSONSchema\<close> returns a schema; the names in its
  required list are exactly the names of the fields that are required and not hidden; its
  properties are exactly the names of the fields that are not hidden; the array under
  \<^verbatim>\<open>ui:order\<close> of the UI schema, where that key holds an array, lists the names of the
  fields that are not hidden, in the order of the form (and the key holds that array
  unless a field is itself named \<^verbatim>\<open>ui:order\<close>). So, the names of a form's fields being
  distinct, the name of a hidden field is in none of the three.
\<close>

theorem hidden_fields_left_out:
  "\<exists>schema. GenerateJSONSchema E form = Inr schema
     \<and> set (js_Required schema)
         = {Name f |f. f \<in> set (Fields form) \<and> Required f \<and> Type f \<noteq> FieldTypeHidden}
     \<and> dom (js_Properties schema)
         = {Name f |f. f \<in> set (Fields form) \<and> Type f \<noteq> FieldTypeHidden}
     \<and> (\<forall>order. GenerateUISchema form ''ui:order'' = Some (VStrings order) \<longrightarrow>
           order = map Name (filter (\<lambda>f. Type f \<noteq> FieldTypeHidden) (Fields form)))
     \<and> (''ui:order'' \<notin> Name ` set (Fields form) \<longrightarrow>
           GenerateUISchema form ''ui:order''
             = Some (VStrings (map Name (filter (\<lambda>f. Type f \<noteq> FieldTypeHidden) (Fields form)))))
     \<and> (distinct (map Name (Fields form)) \<longrightarrow>
          (\<forall>f\<in>set (Fields form). Type f = FieldTypeHidden \<longrightarrow>
             Name f \<notin> dom (js_Properties schema) \<and> Name f \<notin> set (js_Required schema)
             \<and> (\<forall>order. GenerateUISchema form ''ui:order'' = Some (VStrings order) \<longrightarrow>
                  Name f \<notin> set order)))"
proof -
  from GenerateJSONSchema_eq [of E form] obtain schema where
    s: "GenerateJSONSchema E form = Inr schema"
    and p: "js_Properties schema =
         foldl (\<lambda>m f. m(Name f \<mapsto> VMap (projr (generateFieldSchema E f)))) Map.empty
           (filter (\<lambda>f. Type f \<noteq> FieldTypeHidden) (Fields form))"
    and r: "js_Required schema =
         map Name (filter (\<lambda>f. Type f \<noteq> FieldTypeHidden \<and> Required f) (Fields form))"
    by blast
  have req: "set (js_Required schema)
         = {Name f |f. f \<in> set (Fields form) \<and> Required f \<and> Type f \<noteq> FieldTypeHidden}"
    by (auto simp: r)
  have props: "dom (js_Properties schema)
         = {Name f |f. f \<in> set (Fields form) \<and> Type f \<noteq> FieldTypeHidden}"
    unfolding p foldl_upd_dom by auto
  have ord: "\<forall>order. GenerateUISchema form ''ui:order'' = Some (VStrings order) \<longrightarrow>
           order = map Name (filter (\<lambda>f. Type f \<noteq> FieldTypeHidden) (Fields form))"
    using GenerateUISchema_order by blast
  have pres: "''ui:order'' \<notin> Name ` set (Fields form) \<longrightarrow>
           GenerateUISchema form ''ui:order''
             = Some (VStrings (map Name (filter (\<lambda>f. Type f \<noteq> FieldTypeHidden) (Fields form))))"
    using GenerateUISchema_order_present by blast
  have hid: "distinct (map Name (Fields form)) \<longrightarrow>
          (\<forall>f\<in>set (Fields form). Type f = FieldTypeHidden \<longrightarrow>
             Name f \<notin> dom (js_Properties schema) \<and> Name f \<notin> set (js_Required schema)
             \<and> (\<forall>order. GenerateUISchema form ''ui:order'' = Some (VStrings order) \<longrightarrow>
                  Name f \<notin> set order))"
  proof (intro impI ballI)
    fix f
    assume d: "distinct (map Name (Fields form))" and f: "f \<in> set (Fields form)"
      and h: "Type f = FieldTypeHidden"
    have u: "g = f" if "g \<in> set (Fields form)" "Name g = Name f" for g
      using d f that by (meson distinct_map inj_onD)
    have n: "Name f \<notin> {Name g |g. g \<in> set (Fields form) \<and> Type g \<noteq> FieldTypeHidden}"
      using u h by auto
    then have 1: "Name f \<notin> dom (js_Properties schema)" unfolding props by blast
    from n have 2: "Name f \<notin> set (js_Required schema)" unfolding req by blast
    have 3: "\<forall>order. GenerateUISchema form ''ui:order'' = Some (VStrings order) \<longrightarrow>
                  Name f \<notin> set order"
    proof (intro allI impI)
      fix order
      assume "GenerateUISchema form ''ui:order'' = Some (VStrings order)"
      with ord have "order = map Name (filter (\<lambda>f. Type f \<noteq> FieldTypeHidden) (Fields form))"
        by blast
      with n show "Name f \<notin> set order" by auto
    qed
    from 1 2 3 show "Name f \<notin> dom (js_Properties schema) \<and> Name f \<notin> set (js_Required schema)
             \<and> (\<forall>order. GenerateUISchema form ''ui:order'' = Some (VStrings order) \<longrightarrow>
                  Name f \<notin> set order)" by blast
  qed
  from s req props ord pres hid show ?thesis by blast
qed

lemma names_of_filter: "{Name f |f. f \<in> set fs \<and> P f} = set (map Name (filter P fs))"
  by auto

theorem hidden_fields_left_out_witness:
  "\<exists>schema.
     GenerateJSONSchema rt_ascii
       (NewForm ''user'' ''User''
          \<lparr>Fields := [zero_Field\<lparr>Name := ''name'', Type := FieldTypeText, Required := True\<rparr>,
                      zero_Field\<lparr>Name := ''user_id'', Type := FieldTypeHidden, Required := True\<rparr>,
                      zero_Field\<lparr>Name := ''bio'', Type := FieldTypeTextarea\<rparr>]\<rparr>) = Inr schema
     \<and> set (js_Required schema) = {''name''}
     \<and> dom (js_Properties schema) = {''name'', ''bio''}
     \<and> ''user_id'' \<notin> dom (js_Properties schema)
     \<and> ''user_id'' \<notin> set (js_Required schema)
     \<and> GenerateUISchema
          (NewForm ''user'' ''User''
             \<lparr>Fields := [zero_Field\<lparr>Name := ''name'', Type := FieldTypeText, Required := True\<rparr>,
                         zero_Field\<lparr>Name := ''user_id'', Type := FieldTypeHidden, Required := True\<rparr>,
                         zero_Field\<lparr>Name := ''bio'', Type := FieldTypeTextarea\<rparr>]\<rparr> :: int Form)
          ''ui:order'' = Some (VStrings [''name'', ''bio''])"
proof -
  let ?F = "NewForm ''user'' ''User''
          \<lparr>Fields := [zero_Field\<lparr>Name := ''name'', Type := FieldTypeText, Required := True\<rparr>,
                      zero_Field\<lparr>Name := ''user_id'', Type := FieldTypeHidden, Required := True\<rparr>,
                      zero_Field\<lparr>Name := ''bio'', Type := FieldTypeTextarea\<rparr>]\<rparr> :: int Form"
  have fs: "Fields ?F = [zero_Field\<lparr>Name := ''name'', Type := FieldTypeText, Required := True\<rparr>,
                      zero_Field\<lparr>Name := ''user_id'', Type := FieldTypeHidden, Required := True\<rparr>,
                      zero_Field\<lparr>Name := ''bio'', Type := FieldTypeTextarea\<rparr>]"
    by (simp add: NewForm_def)
  from hidden_fields_left_out [of rt_ascii ?F] obtain schema where
    s: "GenerateJSONSchema rt_ascii ?F = Inr schema"
    and req: "set (js_Required schema)
         = {Name f |f. f \<in> set (Fields ?F) \<and> Required f \<and> Type f \<noteq> FieldTypeHidden}"
    and props: "dom (js_Properties schema)
         = {Name f |f. f \<in> set (Fields ?F) \<and> Type f \<noteq> FieldTypeHidden}"
    and pres: "''ui:order'' \<notin> Name ` set (Fields ?F) \<longrightarrow>
           GenerateUISchema ?F ''ui:order''
             = Some (VStrings (map Name (filter (\<lambda>f. Type f \<noteq> FieldTypeHidden) (Fields ?F))))"
    and hid: "distinct (map Name (Fields ?F)) \<longrightarrow>
          (\<forall>f\<in>set (Fields ?F). Type f = FieldTypeHidden \<longrightarrow>
             Name f \<notin> dom (js_Properties schema) \<and> Name f \<notin> set (js_Required schema)
             \<and> (\<forall>order. GenerateUISchema ?F ''ui:order'' = Some (VStrings order) \<longrightarrow>
                  Name f \<notin> set order))"
    by (elim exE conjE) (rule that)
  have 1: "set (js_Required schema) = {''name''}"
    unfolding req names_of_filter fs by (simp add: zero_Field_def)
  have 2: "dom (js_Properties schema) = {''name'', ''bio''}"
    unfolding props names_of_filter fs by (simp add: zero_Field_def)
  have d: "distinct (map Name (Fields ?F))"
    unfolding fs by (simp add: zero_Field_def)
  have m: "zero_Field\<lparr>Name := ''user_id'', Type := FieldTypeHidden, Required := True\<rparr> \<in> set (Fields ?F)"
    unfolding fs by simp
  from hid d m have 3: "''user_id'' \<notin> dom (js_Properties schema) \<and> ''user_id'' \<notin> set (js_Required schema)"
    by (auto simp: zero_Field_def)
  from pres have 4: "GenerateUISchema ?F ''ui:order'' = Some (VStrings [''name'', ''bio''])"
    unfolding fs by (simp add: zero_Field_def)
  from s 1 2 3 4 show ?thesis by blast
qed

lemma projectRule_other:
  "rule_Type r \<notin> {''min'', ''max'', ''minLength'', ''maxLength'', ''pattern''}
    \<Longrightarrow> projectRule E r m = m"
  by (simp add: projectRule_def)

lemma projectRules_filter:
  "projectRules E (filter (\<lambda>r. rule_Type r \<in> {''min'', ''max'', ''minLength'', ''maxLength'', ''pattern''}) rules) m
     = projectRules E rules m"
  by (induction rules arbitrary: m) (simp_all add: projectRule_other)

lemma schemaOfType_Validation [simp]:
  "schemaOfType (field\<lparr>Validation := rs\<rparr>) = schemaOfType field"
  by (simp add: schemaOfType_def cong: if_cong)

text \<open>Rules of a kind with no schema keyword, such as email, change nothing in the schema.\<close>

lemma generateFieldSchema_filter:
  "generateFieldSchema E
     (field\<lparr>Validation := filter (\<lambda>r. rule_Type r \<in> {''min'', ''max'', ''minLength'', ''maxLength'', ''pattern''})
        (Validation field)\<rparr>) = generateFieldSchema E field"
  by (simp add: generateFieldSchema_def Let_def projectRules_filter [simplified])

text \<open>
  Claim C3 asks that every min, max, minLength, maxLength and pattern rule of a field that
  is not hidden puts its keyword, carrying the rule's parameter, into the field's entry of
  the presentation schema. \<^verbatim>\<open>generateFieldSchema\<close> does so only for a parameter
  whose dynamic type is \<^verbatim>\<open>float64\<close>, and misses the Go integers that the
  repository's own forms pass and that \<^verbatim>\<open>toFloat64\<close> and \<^verbatim>\<open>toInt\<close> accept at
  validation time. For the field \<^verbatim>\<open>age\<close> with the rules min 0 and max 120 and for a
  field with the rule minLength 5, all three parameters Go integers: the schema has none
  of the keywords \<^verbatim>\<open>minimum\<close>, \<^verbatim>\<open>maximum\<close>, \<^verbatim>\<open>minLength\<close>, while validation
  enforces the same rules (\<^verbatim>\<open>150\<close> is above the maximum, \<^verbatim>\<open>ab\<close> is too
  short); with the same parameters as \<^verbatim>\<open>float64\<close> the keywords are there.
\<close>

theorem generateFieldSchema_misses_int_parameters:
  "(case GenerateJSONSchema rt_ascii
       (NewForm ''user'' ''User''
          \<lparr>Fields :=
             [zero_Field\<lparr>Name := ''age'', Type := FieldTypeNumber,
                Validation := [\<lparr>rule_Type = ''min'', rule_Value = VInt 0, rule_Message = []\<rparr>,
                               \<lparr>rule_Type = ''max'', rule_Value = VInt 120, rule_Message = []\<rparr>]\<rparr>,
              zero_Field\<lparr>Name := ''login'', Type := FieldTypeText,
                Validation := [\<lparr>rule_Type = ''minLength'', rule_Value = VInt 5, rule_Message = []\<rparr>]\<rparr>]\<rparr>)
    of Inl err \<Rightarrow> None
     | Inr schema \<Rightarrow>
         Some (schemaKeyword schema ''age'' ''minimum'', schemaKeyword schema ''age'' ''maximum'',
               schemaKeyword schema ''login'' ''minLength''))
     = Some (None, None, None)
   \<and> ValidateField rt_ascii
       (zero_Field\<lparr>Name := ''age'', Type := FieldTypeNumber,
          Validation := [\<lparr>rule_Type = ''min'', rule_Value = VInt 0, rule_Message = []\<rparr>,
                         \<lparr>rule_Type = ''max'', rule_Value = VInt 120, rule_Message = []\<rparr>]\<rparr>)
       (VString ''150'') = Some (AboveMax 120)
   \<and> ValidateField rt_ascii
       (zero_Field\<lparr>Name := ''login'', Type := FieldTypeText,
          Validation := [\<lparr>rule_Type = ''minLength'', rule_Value = VInt 5, rule_Message = []\<rparr>]\<rparr>)
       (VString ''ab'') = Some (TooShort 5)
   \<and> (case GenerateJSONSchema rt_ascii
       (NewForm ''user'' ''User''
          \<lparr>Fields :=
             [zero_Field\<lparr>Name := ''age'', Type := FieldTypeNumber,
                Validation := [\<lparr>rule_Type = ''min'', rule_Value = VFloat64 0, rule_Message = []\<rparr>,
                               \<lparr>rule_Type = ''max'', rule_Value = VFloat64 120, rule_Message = []\<rparr>]\<rparr>,
              zero_Field\<lparr>Name := ''login'', Type := FieldTypeText,
                Validation := [\<lparr>rule_Type = ''minLength'', rule_Value = VFloat64 5, rule_Message = []\<rparr>]\<rparr>]\<rparr>)
    of Inl err \<Rightarrow> None
     | Inr schema \<Rightarrow>
         Some (schemaKeyword schema ''age'' ''minimum'', schemaKeyword schema ''age'' ''maximum'',
               schemaKeyword schema ''login'' ''minLength''))
     = Some (Some (VFloat64 0), Some (VFloat64 120), Some (VInt 5))"
proof -
  have 1: "(case GenerateJSONSchema rt_ascii
       (NewForm ''user'' ''User''
          \<lparr>Fields :=
             [zero_Field\<lparr>Name := ''age'', Type := FieldTypeNumber,
                Validation := [\<lparr>rule_Type = ''min'', rule_Value = VInt 0, rule_Message = []\<rparr>,
                               \<lparr>rule_Type = ''max'', rule_Value = VInt 120, rule_Message = []\<rparr>]\<rparr>,
              zero_Field\<lparr>Name := ''login'', Type := FieldTypeText,
                Validation := [\<lparr>rule_Type = ''minLength'', rule_Value = VInt 5, rule_Message = []\<rparr>]\<rparr>]\<rparr>)
    of Inl err \<Rightarrow> None
     | Inr schema \<Rightarrow>
         Some (schemaKeyword schema ''age'' ''minimum'', schemaKeyword schema ''age'' ''maximum'',
               schemaKeyword schema ''login'' ''minLength''))
     = Some (None, None, None)"
    by (simp add: GenerateJSONSchema_def NewForm_def zero_Field_def generateFieldSchema_def
        schemaOfType_def projectRule_def schemaKeyword_def Let_def)
  have 2: "ValidateField rt_ascii
       (zero_Field\<lparr>Name := ''age'', Type := FieldTypeNumber,
          Validation := [\<lparr>rule_Type = ''min'', rule_Value = VInt 0, rule_Message = []\<rparr>,
                         \<lparr>rule_Type = ''max'', rule_Value = VInt 120, rule_Message = []\<rparr>]\<rparr>)
       (VString ''150'') = Some (AboveMax 120)"
    by (simp add: ValidateField_def zero_Field_def validateRule_def validateMin_def
        validateMax_def failure_def rt_ascii_simps)
  have 3: "ValidateField rt_ascii
       (zero_Field\<lparr>Name := ''login'', Type := FieldTypeText,
          Validation := [\<lparr>rule_Type = ''minLength'', rule_Value = VInt 5, rule_Message = []\<rparr>]\<rparr>)
       (VString ''ab'') = Some (TooShort 5)"
    by (simp add: ValidateField_def zero_Field_def validateRule_def validateMinLength_def
        failure_def rt_ascii_simps)
  have 4: "(case GenerateJSONSchema rt_ascii
       (NewForm ''user'' ''User''
          \<lparr>Fields :=
             [zero_Field\<lparr>Name := ''age'', Type := FieldTypeNumber,
                Validation := [\<lparr>rule_Type = ''min'', rule_Value = VFloat64 0, rule_Message = []\<rparr>,
                               \<lparr>rule_Type = ''max'', rule_Value = VFloat64 120, rule_Message = []\<rparr>]\<rparr>,
              zero_Field\<lparr>Name := ''login'', Type := FieldTypeText,
                Validation := [\<lparr>rule_Type = ''minLength'', rule_Value = VFloat64 5, rule_Message = []\<rparr>]\<rparr>]\<rparr>)
    of Inl err \<Rightarrow> None
     | Inr schema \<Rightarrow>
         Some (schemaKeyword schema ''age'' ''minimum'', schemaKeyword schema ''age'' ''maximum'',
               schemaKeyword schema ''login'' ''minLength''))
     = Some (Some (VFloat64 0), Some (VFloat64 120), Some (VInt 5))"
    by (simp add: GenerateJSONSchema_def NewForm_def zero_Field_def generateFieldSchema_def
        schemaOfType_def projectRule_def schemaKeyword_def Let_def rt_ascii_def)
  from 1 2 3 4 show ?thesis by (intro conjI)
qed

end
